theory Spec2Isabelle
  imports Main "HOL-Library.Sublist" "HOL-Library.AList"
begin

section \<open>Python values the pipeline handles\<close>

text \<open>
  A Python \<open>str\<close> is a sequence of Unicode code points; \<open>len\<close>, \<open>in\<close>, \<open>replace\<close> and
  \<open>strip\<close> all work on code points, so a string is modelled as the list of its code points.
  Dictionary keys and column names of the program are ASCII identifiers and stay HOL strings.
\<close>

type_synonym ustr = "nat list"

text \<open>The exceptions (all subclasses of \<open>Exception\<close>) that the modelled code can raise.\<close>

datatype exn =
    ValueError
  | OverflowError
  | KeyError string
  | TypeError
  | AttributeError
  | IndexError
  | ExternalError

text \<open>\<open>str.isspace\<close> for one code point: the white space \<open>strip()\<close> removes and \<open>\s\<close> matches.\<close>

definition isspace :: "nat \<Rightarrow> bool" where
  "isspace c =
     ((9 \<le> c \<and> c \<le> 13) \<or> (28 \<le> c \<and> c \<le> 32) \<or> c = 133 \<or> c = 160 \<or> c = 5760 \<or>
      (8192 \<le> c \<and> c \<le> 8202) \<or> c = 8232 \<or> c = 8233 \<or> c = 8239 \<or> c = 8287 \<or> c = 12288)"

text \<open>
  The decimal digits of Unicode (category Nd, Unicode 14): each block of ten consecutive code
  points holds the digits 0 to 9 in order. \<open>int()\<close> and the \<open>\d\<close> of \<open>re\<close> accept all of them.
\<close>

definition decimal_ranges :: "(nat \<times> nat) list" where
  "decimal_ranges =
     [(48, 57), (1632, 1641), (1776, 1785), (1984, 1993), (2406, 2415), (2534, 2543),
      (2662, 2671), (2790, 2799), (2918, 2927), (3046, 3055), (3174, 3183), (3302, 3311),
      (3430, 3439), (3558, 3567), (3664, 3673), (3792, 3801), (3872, 3881), (4160, 4169),
      (4240, 4249), (6112, 6121), (6160, 6169), (6470, 6479), (6608, 6617), (6784, 6793),
      (6800, 6809), (6992, 7001), (7088, 7097), (7232, 7241), (7248, 7257), (42528, 42537),
      (43216, 43225), (43264, 43273), (43472, 43481), (43504, 43513), (43600, 43609),
      (44016, 44025), (65296, 65305), (66720, 66729), (68912, 68921), (69734, 69743),
      (69872, 69881), (69942, 69951), (70096, 70105), (70384, 70393), (70736, 70745),
      (70864, 70873), (71248, 71257), (71360, 71369), (71472, 71481), (71904, 71913),
      (72016, 72025), (72784, 72793), (73040, 73049), (73120, 73129), (92768, 92777),
      (92864, 92873), (93008, 93017), (120782, 120831), (123200, 123209), (123632, 123641),
      (125264, 125273), (130032, 130041)]"

definition digit_value :: "nat \<Rightarrow> nat option" where
  "digit_value c =
     (case find (\<lambda>(lo, hi). lo \<le> c \<and> c \<le> hi) decimal_ranges of
        None \<Rightarrow> None
      | Some (lo, hi) \<Rightarrow> Some ((c - lo) mod 10))"

definition isdecimal :: "nat \<Rightarrow> bool" where
  "isdecimal c = (digit_value c \<noteq> None)"

subsection \<open>String methods\<close>

definition lstrip :: "ustr \<Rightarrow> ustr" where
  "lstrip s = dropWhile isspace s"

definition rstrip :: "ustr \<Rightarrow> ustr" where
  "rstrip s = rev (dropWhile isspace (rev s))"

definition strip :: "ustr \<Rightarrow> ustr" where
  "strip s = rstrip (lstrip s)"

text \<open>\<open>old in s\<close> for strings: \<open>old\<close> occurs in \<open>s\<close> as a contiguous run.\<close>

fun contains :: "ustr \<Rightarrow> ustr \<Rightarrow> bool" where
  "contains old [] = (old = [])"
| "contains old (c # cs) = (prefix old (c # cs) \<or> contains old cs)"

text \<open>
  \<open>s.replace(old, new)\<close>: the occurrences of \<open>old\<close> are found from the left and do not
  overlap. The program only ever passes a non-empty \<open>old\<close>; for an empty one (where Python
  inserts \<open>new\<close> between all characters) the model leaves \<open>s\<close> as it is.
\<close>

function replace :: "ustr \<Rightarrow> ustr \<Rightarrow> ustr \<Rightarrow> ustr" where
  "replace [] old new = []"
| "replace (c # cs) old new =
     (if old \<noteq> [] \<and> prefix old (c # cs)
      then new @ replace (drop (length old) (c # cs)) old new
      else c # replace cs old new)"
  by pat_completeness auto
termination
  by (relation "measure (\<lambda>(s, old, new). length s)") (auto simp: neq_Nil_conv)

text \<open>\<open>s.split(sep)\<close> for a one-character separator; the result is never empty.\<close>

fun split :: "nat \<Rightarrow> ustr \<Rightarrow> ustr list" where
  "split sep [] = [[]]"
| "split sep (c # cs) =
     (if c = sep then [] # split sep cs
      else (case split sep cs of [] \<Rightarrow> [[c]] | g # gs \<Rightarrow> (c # g) # gs))"

fun join :: "ustr \<Rightarrow> ustr list \<Rightarrow> ustr" where
  "join sep [] = []"
| "join sep [x] = x"
| "join sep (x # y # ys) = x @ sep @ join sep (y # ys)"

subsection \<open>\<open>int(s)\<close> and \<open>str(n)\<close>\<close>

text \<open>
  \<open>int(s)\<close> in base ten: white space around the literal is skipped, one sign is allowed,
  then digits follow, where single underscores may stand between digits. More than 4300
  digits raise \<open>ValueError\<close> (the interpreter's limit on integer string conversion), as does
  every malformed literal. The white space skipped here is that of \<open>strip()\<close>; the program
  passes \<open>int()\<close> stripped strings only.
\<close>

definition digit_group :: "ustr \<Rightarrow> nat list option" where
  "digit_group g = (if g = [] then None else those (map digit_value g))"

fun digit_groups :: "ustr list \<Rightarrow> nat list option" where
  "digit_groups [] = Some []"
| "digit_groups (g # gs) =
     (case digit_group g of
        None \<Rightarrow> None
      | Some ds \<Rightarrow> (case digit_groups gs of None \<Rightarrow> None | Some es \<Rightarrow> Some (ds @ es)))"

definition decimal_value :: "nat list \<Rightarrow> int" where
  "decimal_value ds = foldl (\<lambda>a d. 10 * a + int d) 0 ds"

definition max_str_digits :: nat where
  "max_str_digits = 4300"

definition int_of_literal :: "ustr \<Rightarrow> exn + int" where
  "int_of_literal body =
     (case digit_groups (split 95 body) of
        None \<Rightarrow> Inl ValueError
      | Some ds \<Rightarrow>
          if max_str_digits < length ds then Inl ValueError else Inr (decimal_value ds))"

definition py_int :: "ustr \<Rightarrow> exn + int" where
  "py_int s =
     (case strip s of
        [] \<Rightarrow> Inl ValueError
      | c # r \<Rightarrow>
          if c = 45 then map_sum id uminus (int_of_literal r)
          else if c = 43 then int_of_literal r
          else int_of_literal (c # r))"

text \<open>\<open>str(n)\<close> for a natural number and for an integer.\<close>

fun str_nat :: "nat \<Rightarrow> ustr" where
  "str_nat n = (if n < 10 then [48 + n] else str_nat (n div 10) @ [48 + n mod 10])"

declare str_nat.simps [simp del]

definition str_int :: "int \<Rightarrow> ustr" where
  "str_int i = (if i < 0 then 45 # str_nat (nat (- i)) else str_nat (nat i))"

section \<open>Naive datetimes\<close>

text \<open>
  A naive \<open>datetime\<close> is a point on the proleptic Gregorian time line with microsecond
  resolution; it is modelled as the number of microseconds since \<open>datetime.min\<close>, which is
  0001-01-01T00:00:00. Comparison of datetimes is comparison of these numbers. The calendar
  functions follow CPython's \<open>datetime\<close> module.
\<close>

type_synonym datetime = int

type_synonym timedelta = int

definition us_per_day :: int where
  "us_per_day = 86400000000"

definition max_ordinal :: int where
  "max_ordinal = 3652059"

definition datetime_max :: datetime where
  "datetime_max = max_ordinal * us_per_day - 1"

definition is_leap :: "int \<Rightarrow> bool" where
  "is_leap y = (y mod 4 = 0 \<and> (0 < y mod 100 \<or> y mod 400 = 0))"

definition days_before_year :: "int \<Rightarrow> int" where
  "days_before_year y = (y - 1) * 365 + (y - 1) div 4 - (y - 1) div 100 + (y - 1) div 400"

definition days_in_month :: "int \<Rightarrow> int \<Rightarrow> int" where
  "days_in_month y m =
     (if m = 2 then (if is_leap y then 29 else 28)
      else if m = 4 \<or> m = 6 \<or> m = 9 \<or> m = 11 then 30 else 31)"

definition days_before_month :: "int \<Rightarrow> int \<Rightarrow> int" where
  "days_before_month y m = sum_list (map (days_in_month y) [1..m - 1])"

definition ymd2ord :: "int \<Rightarrow> int \<Rightarrow> int \<Rightarrow> int" where
  "ymd2ord y m d = days_before_year y + days_before_month y m + d"

text \<open>The constructor \<open>datetime(y, m, d, H, M)\<close>; fields out of range raise \<open>ValueError\<close>.\<close>

definition mk_datetime :: "int \<Rightarrow> int \<Rightarrow> int \<Rightarrow> int \<Rightarrow> int \<Rightarrow> exn + datetime" where
  "mk_datetime y m d H M =
     (if 1 \<le> y \<and> y \<le> 9999 \<and> 1 \<le> m \<and> m \<le> 12 \<and> 1 \<le> d \<and> d \<le> days_in_month y m \<and>
         0 \<le> H \<and> H \<le> 23 \<and> 0 \<le> M \<and> M \<le> 59
      then Inr ((ymd2ord y m d - 1) * us_per_day + (H * 3600 + M * 60) * 1000000)
      else Inl ValueError)"

definition hour_of :: "datetime \<Rightarrow> int" where
  "hour_of dt = (dt mod us_per_day) div 3600000000"

definition minute_of :: "datetime \<Rightarrow> int" where
  "minute_of dt = ((dt mod us_per_day) mod 3600000000) div 60000000"

text \<open>The \<open>year\<close> attribute, computed as \<open>_ord2ymd\<close> does from the day's ordinal.\<close>

definition year_of :: "datetime \<Rightarrow> int" where
  "year_of dt =
     (let n = dt div us_per_day;
          n400 = n div 146097; r400 = n mod 146097;
          n100 = r400 div 36524; r100 = r400 mod 36524;
          n4 = r100 div 1461; r4 = r100 mod 1461;
          n1 = r4 div 365;
          y = n400 * 400 + 1 + n100 * 100 + n4 * 4 + n1
      in if n1 = 4 \<or> n100 = 4 then y - 1 else y)"

text \<open>
  \<open>now.replace(hour=H, minute=M, second=0, microsecond=0)\<close>: the date is kept and the
  time of day is set; an hour or minute out of range raises \<open>ValueError\<close>.
\<close>

definition replace_hm :: "datetime \<Rightarrow> int \<Rightarrow> int \<Rightarrow> exn + datetime" where
  "replace_hm now H M =
     (if 0 \<le> H \<and> H \<le> 23 \<and> 0 \<le> M \<and> M \<le> 59
      then Inr ((now div us_per_day) * us_per_day + (H * 3600 + M * 60) * 1000000)
      else Inl ValueError)"

text \<open>
  A \<open>timedelta\<close> is a number of microseconds. Its constructors raise \<open>OverflowError\<close> when
  the normalised number of days exceeds 999999999 in magnitude.
\<close>

definition mk_timedelta :: "int \<Rightarrow> exn + timedelta" where
  "mk_timedelta us =
     (if 999999999 < \<bar>us div us_per_day\<bar> then Inl OverflowError else Inr us)"

definition timedelta_minutes :: "int \<Rightarrow> exn + timedelta" where
  "timedelta_minutes n = mk_timedelta (n * 60000000)"

definition timedelta_hours :: "int \<Rightarrow> exn + timedelta" where
  "timedelta_hours n = mk_timedelta (n * 3600000000)"

definition timedelta_days :: "int \<Rightarrow> exn + timedelta" where
  "timedelta_days n = mk_timedelta (n * us_per_day)"

text \<open>\<open>dt - td\<close>: a result outside \<open>datetime.min .. datetime.max\<close> raises \<open>OverflowError\<close>.\<close>

definition dt_sub :: "datetime \<Rightarrow> timedelta \<Rightarrow> exn + datetime" where
  "dt_sub dt td =
     (let r = dt - td in if 0 \<le> r \<and> r \<le> datetime_max then Inr r else Inl OverflowError)"

text \<open>Sequencing of steps that may raise: the first exception ends the computation.\<close>

definition bind :: "exn + 'a \<Rightarrow> ('a \<Rightarrow> exn + 'b) \<Rightarrow> exn + 'b" where
  "bind m f = (case m of Inl e \<Rightarrow> Inl e | Inr x \<Rightarrow> f x)"

section \<open>\<open>datetime.strptime\<close> for the two formats the program uses\<close>

text \<open>
  \<open>strptime\<close> turns the format into a regular expression, matches it at the start of the
  string with the backtracking matcher of \<open>re\<close>, raises \<open>ValueError\<close> when there is no match
  or when the match does not reach the end of the string, and builds the datetime from the
  groups. A pattern is modelled by the list of its matches in the order the matcher tries
  them, each with the matched text and the rest of the string; the match found is the first.
\<close>

type_synonym rx = "ustr \<Rightarrow> (ustr \<times> ustr) list"

definition rx_class :: "(nat \<Rightarrow> bool) \<Rightarrow> rx" where
  "rx_class P s = (case s of [] \<Rightarrow> [] | c # r \<Rightarrow> if P c then [([c], r)] else [])"

definition rx_lit :: "nat \<Rightarrow> rx" where
  "rx_lit c = rx_class (\<lambda>x. x = c)"

definition rx_range :: "nat \<Rightarrow> nat \<Rightarrow> rx" where
  "rx_range lo hi = rx_class (\<lambda>x. lo \<le> x \<and> x \<le> hi)"

definition rx_digit :: rx where
  "rx_digit = rx_class isdecimal"

definition rx_seq :: "rx \<Rightarrow> rx \<Rightarrow> rx" where
  "rx_seq a b s = concat (map (\<lambda>(x, r). map (\<lambda>(y, r'). (x @ y, r')) (b r)) (a s))"

definition rx_alt :: "rx \<Rightarrow> rx \<Rightarrow> rx" where
  "rx_alt a b s = a s @ b s"

text \<open>\<open>\s+\<close>, greedy: the longest run of white space first.\<close>

definition rx_spaces :: rx where
  "rx_spaces s =
     (let k = length (takeWhile isspace s)
      in map (\<lambda>n. (take n s, drop n s)) (rev [1..<Suc k]))"

text \<open>The directives, as \<open>_strptime.TimeRE\<close> defines them.\<close>

definition rx_Y :: rx where
  "rx_Y = rx_seq rx_digit (rx_seq rx_digit (rx_seq rx_digit rx_digit))"

definition rx_m :: rx where
  "rx_m = rx_alt (rx_seq (rx_lit 49) (rx_range 48 50))
            (rx_alt (rx_seq (rx_lit 48) (rx_range 49 57)) (rx_range 49 57))"

definition rx_d :: rx where
  "rx_d = rx_alt (rx_seq (rx_lit 51) (rx_range 48 49))
            (rx_alt (rx_seq (rx_range 49 50) rx_digit)
              (rx_alt (rx_seq (rx_lit 48) (rx_range 49 57))
                (rx_alt (rx_range 49 57) (rx_seq (rx_lit 32) (rx_range 49 57)))))"

definition rx_H :: rx where
  "rx_H = rx_alt (rx_seq (rx_lit 50) (rx_range 48 51))
            (rx_alt (rx_seq (rx_range 48 49) rx_digit) rx_digit)"

definition rx_M :: rx where
  "rx_M = rx_alt (rx_seq (rx_range 48 53) rx_digit) rx_digit"

text \<open>The format \<open>%H:%M\<close>; the date of the result is 1900-01-01.\<close>

definition match_HM :: "ustr \<Rightarrow> (ustr \<times> ustr \<times> ustr) list" where
  "match_HM s =
     [(H, M, r3). (H, r1) \<leftarrow> rx_H s, (c, r2) \<leftarrow> rx_lit 58 r1, (M, r3) \<leftarrow> rx_M r2]"

definition strptime_HM :: "ustr \<Rightarrow> exn + datetime" where
  "strptime_HM s =
     (case match_HM s of
        [] \<Rightarrow> Inl ValueError
      | (H, M, rest) # _ \<Rightarrow>
          if rest \<noteq> [] then Inl ValueError
          else bind (py_int H) (\<lambda>h. bind (py_int M) (\<lambda>m. mk_datetime 1900 1 1 h m)))"

text \<open>The format \<open>%Y-%m-%d %H:%M\<close>; the blank of the format stands for \<open>\s+\<close>.\<close>

definition match_YmdHM :: "ustr \<Rightarrow> (ustr \<times> ustr \<times> ustr \<times> ustr \<times> ustr \<times> ustr) list" where
  "match_YmdHM s =
     [(Y, m, d, H, M, r8).
        (Y, r1) \<leftarrow> rx_Y s, (c1, r2) \<leftarrow> rx_lit 45 r1, (m, r3) \<leftarrow> rx_m r2,
        (c2, r4) \<leftarrow> rx_lit 45 r3, (d, r5) \<leftarrow> rx_d r4, (w, r6) \<leftarrow> rx_spaces r5,
        (H, r7) \<leftarrow> rx_H r6, (c3, r7') \<leftarrow> rx_lit 58 r7, (M, r8) \<leftarrow> rx_M r7']"

definition strptime_YmdHM :: "ustr \<Rightarrow> exn + datetime" where
  "strptime_YmdHM s =
     (case match_YmdHM s of
        [] \<Rightarrow> Inl ValueError
      | (Y, m, d, H, M, rest) # _ \<Rightarrow>
          if rest \<noteq> [] then Inl ValueError
          else bind (py_int Y) (\<lambda>year. bind (py_int m) (\<lambda>month. bind (py_int d) (\<lambda>day.
               bind (py_int H) (\<lambda>hour. bind (py_int M) (\<lambda>minute.
               mk_datetime year month day hour minute))))))"

section \<open>Values of posts and of the configuration\<close>

text \<open>
  The values found in a post and in the configuration: \<open>None\<close>, booleans, integers and
  strings. \<open>py_str\<close> is \<open>str(v)\<close> and \<open>truthy\<close> is the truth value Python gives \<open>v\<close>.
\<close>

datatype pyval = PNone | PBool bool | PInt int | PStr ustr

fun py_str :: "pyval \<Rightarrow> ustr" where
  "py_str PNone = [78, 111, 110, 101]"
| "py_str (PBool True) = [84, 114, 117, 101]"
| "py_str (PBool False) = [70, 97, 108, 115, 101]"
| "py_str (PInt i) = str_int i"
| "py_str (PStr s) = s"

fun truthy :: "pyval \<Rightarrow> bool" where
  "truthy PNone = False"
| "truthy (PBool b) = b"
| "truthy (PInt i) = (i \<noteq> 0)"
| "truthy (PStr s) = (s \<noteq> [])"

section \<open>\<open>parse_weibo_time\<close>\<close>

text \<open>
  The literals of the function, as code points: \<open>minutes_ago\<close> is the three characters
  U+5206 U+949F U+524D, \<open>hours_ago\<close> is U+5C0F U+65F6 U+524D, \<open>today\<close> is U+4ECA U+5929,
  \<open>yesterday\<close> is U+6628 U+5929 and \<open>unknown_time\<close> is U+672A U+77E5 U+65F6 U+95F4.
\<close>

definition minutes_ago :: ustr where
  "minutes_ago = [20998, 38047, 21069]"

definition hours_ago :: ustr where
  "hours_ago = [23567, 26102, 21069]"

definition today :: ustr where
  "today = [20170, 22825]"

definition yesterday :: ustr where
  "yesterday = [26152, 22825]"

definition unknown_time :: ustr where
  "unknown_time = [26410, 30693, 26102, 38388]"

text \<open>The body of the \<open>try\<close> statement: every exception it can raise is a result \<open>Inl\<close>.\<close>

definition parse_body :: "ustr \<Rightarrow> datetime \<Rightarrow> exn + datetime option" where
  "parse_body time_str now =
     (if contains minutes_ago time_str then
        bind (py_int (strip (replace time_str minutes_ago []))) (\<lambda>minutes.
        bind (timedelta_minutes minutes) (\<lambda>td.
        bind (dt_sub now td) (\<lambda>r. Inr (Some r))))
      else if contains hours_ago time_str then
        bind (py_int (strip (replace time_str hours_ago []))) (\<lambda>hours.
        bind (timedelta_hours hours) (\<lambda>td.
        bind (dt_sub now td) (\<lambda>r. Inr (Some r))))
      else if contains today time_str then
        bind (strptime_HM (strip (replace time_str today []))) (\<lambda>dt.
        bind (replace_hm now (hour_of dt) (minute_of dt)) (\<lambda>r. Inr (Some r)))
      else if contains yesterday time_str then
        bind (strptime_HM (strip (replace time_str yesterday []))) (\<lambda>dt.
        bind (replace_hm now (hour_of dt) (minute_of dt)) (\<lambda>d.
        bind (timedelta_days 1) (\<lambda>td.
        bind (dt_sub d td) (\<lambda>r. Inr (Some r)))))
      else if contains [45] time_str then
        (if length time_str = 11 then
           bind (strptime_YmdHM (str_int (year_of now) @ [45] @ time_str)) (\<lambda>r. Inr (Some r))
         else if length time_str = 16 then
           bind (strptime_YmdHM time_str) (\<lambda>r. Inr (Some r))
         else Inr None)
      else Inr None)"

text \<open>
  The function itself, with the reference instant \<open>now\<close> given by the caller. \<open>except
  Exception: pass\<close> turns every exception of the body into the result \<open>None\<close>. The result
  type keeps the possibility of raising (\<open>Inl\<close>) so that its absence is a theorem.
\<close>

definition parse_weibo_time :: "pyval \<Rightarrow> datetime \<Rightarrow> exn + datetime option" where
  "parse_weibo_time v now =
     (let time_str = strip (py_str v)
      in if time_str = [] \<or> time_str = unknown_time then Inr None
         else (case parse_body time_str now of Inl e \<Rightarrow> Inr None | Inr r \<Rightarrow> Inr r))"


section \<open>Dictionaries and posts\<close>

text \<open>
  A \<open>dict\<close> with string keys is an association list in insertion order; a post is such a
  dictionary. \<open>ascii\<close> gives the code points of a literal of the program.
\<close>

type_synonym pydict = "(string \<times> pyval) list"

type_synonym post = pydict

definition ascii :: "string \<Rightarrow> ustr" where
  "ascii s = map of_char s"

definition dict_get :: "pydict \<Rightarrow> string \<Rightarrow> pyval \<Rightarrow> pyval" where
  "dict_get d k dflt = (case map_of d k of None \<Rightarrow> dflt | Some v \<Rightarrow> v)"

definition dict_item :: "pydict \<Rightarrow> string \<Rightarrow> exn + pyval" where
  "dict_item d k = (case map_of d k of None \<Rightarrow> Inl (KeyError k) | Some v \<Rightarrow> Inr v)"

definition dict_has :: "pydict \<Rightarrow> string \<Rightarrow> bool" where
  "dict_has d k = (map_of d k \<noteq> None)"

definition dict_set :: "pydict \<Rightarrow> string \<Rightarrow> pyval \<Rightarrow> pydict" where
  "dict_set d k v = AList.update k v d"

section \<open>The recency and media filter of \<open>process_keyword\<close>\<close>

text \<open>
  One turn of the loop decides whether the post is kept: \<open>dt and dt >= two_days_ago and
  (has_img or has_vid)\<close>. A datetime is always true as a condition; \<open>None\<close> is false.
\<close>

definition keeps :: "datetime \<Rightarrow> datetime \<Rightarrow> post \<Rightarrow> exn + bool" where
  "keeps now_dt two_days_ago weibo =
     bind (parse_weibo_time (dict_get weibo ''publish_time'' (PStr [])) now_dt) (\<lambda>dt.
       let has_img = dict_get weibo ''has_images'' (PBool False);
           has_vid = dict_get weibo ''has_videos'' (PBool False)
       in Inr (case dt of
                 None \<Rightarrow> False
               | Some t \<Rightarrow> two_days_ago \<le> t \<and> (truthy has_img \<or> truthy has_vid)))"

fun filter_loop :: "datetime \<Rightarrow> datetime \<Rightarrow> post list \<Rightarrow> post list \<Rightarrow> exn + post list" where
  "filter_loop now_dt two_days_ago [] acc = Inr acc"
| "filter_loop now_dt two_days_ago (weibo # results) acc =
     bind (keeps now_dt two_days_ago weibo) (\<lambda>keep.
       filter_loop now_dt two_days_ago results (if keep then acc @ [weibo] else acc))"

definition filter_by_time_and_media :: "datetime \<Rightarrow> post list \<Rightarrow> exn + post list" where
  "filter_by_time_and_media now_dt results =
     bind (timedelta_days 2) (\<lambda>td.
     bind (dt_sub now_dt td) (\<lambda>two_days_ago.
       filter_loop now_dt two_days_ago results []))"

text \<open>
  The contract of the filter in the words of the specification: the normalized publish time
  is not null, it is no earlier than 48 hours before the reference instant, and the post
  has an image or a video.
\<close>

definition recent_with_media :: "datetime \<Rightarrow> post \<Rightarrow> bool" where
  "recent_with_media now w =
     (case parse_weibo_time (dict_get w ''publish_time'' (PStr [])) now of
        Inr (Some t) \<Rightarrow>
          now - 48 * 3600000000 \<le> t \<and>
          (truthy (dict_get w ''has_images'' (PBool False)) \<or>
           truthy (dict_get w ''has_videos'' (PBool False)))
      | _ \<Rightarrow> False)"

section \<open>\<open>load_config\<close>\<close>

text \<open>
  What \<open>config.json\<close> holds: nothing (the file is missing), something \<open>open\<close> or \<open>json.load\<close>
  raises on, or a JSON object. A file whose top-level value is not an object is outside the
  model. \<open>writable\<close> says whether writing the file succeeds; a failed write raises and
  leaves the file as it was.
\<close>

datatype config_file = Missing | Unparseable | Object pydict

definition default_config :: pydict where
  "default_config =
     [(''cookie'', PStr []), (''default_pages'', PInt 5), (''min_score'', PInt 80),
      (''min_likes'', PInt 500), (''download_media'', PBool False), (''max_retries'', PInt 3),
      (''retry_delay'', PInt 5), (''thread_pool_size'', PInt 4), (''proxy'', PNone)]"

fun fill_defaults :: "pydict \<Rightarrow> pydict \<Rightarrow> pydict" where
  "fill_defaults [] config = config"
| "fill_defaults ((key, v) # defaults) config =
     fill_defaults defaults (if dict_has config key then config else dict_set config key v)"

text \<open>The result is the configuration returned and the file afterwards.\<close>

definition load_config :: "bool \<Rightarrow> config_file \<Rightarrow> pydict \<times> config_file" where
  "load_config writable file =
     (case file of
        Object config \<Rightarrow> (fill_defaults default_config config, file)
      | Unparseable \<Rightarrow> (default_config, file)
      | Missing \<Rightarrow>
          if writable then (default_config, Object default_config)
          else (default_config, file))"

section \<open>\<open>load_keyword_classifications\<close>\<close>

text \<open>
  The classification file is missing, unreadable (\<open>read_csv\<close> raises), or a table; the rows
  of the table are the data rows, each a list of text cells (the first line of the file is
  the header of \<open>read_csv\<close>, and the type inference of \<open>read_csv\<close> is not modelled).
  \<open>row.iloc[0]\<close> and \<open>row.iloc[1]\<close> raise \<open>IndexError\<close> on a shorter row; the handler logs it
  and the mapping built so far is returned.
\<close>

datatype classification_file = NoFile | Unreadable | Table "ustr list list"

type_synonym keyword_map = "(ustr \<times> ustr) list"

fun classification_loop :: "ustr list list \<Rightarrow> keyword_map \<Rightarrow> keyword_map" where
  "classification_loop [] keyword_to_type = keyword_to_type"
| "classification_loop (row # rows) keyword_to_type =
     (case row of
        keyword # classification # rest \<Rightarrow>
          classification_loop rows (AList.update keyword classification keyword_to_type)
      | _ \<Rightarrow> keyword_to_type)"

definition load_keyword_classifications :: "classification_file \<Rightarrow> keyword_map" where
  "load_keyword_classifications file =
     (case file of Table rows \<Rightarrow> classification_loop rows [] | _ \<Rightarrow> [])"

text \<open>\<open>keyword_to_type.get(keyword, "unknown")\<close>.\<close>

definition classify :: "keyword_map \<Rightarrow> ustr \<Rightarrow> ustr" where
  "classify keyword_to_type keyword =
     (case map_of keyword_to_type keyword of None \<Rightarrow> ascii ''unknown'' | Some c \<Rightarrow> c)"

section \<open>Data frames\<close>

text \<open>
  A \<open>DataFrame\<close> is kept by columns, as pandas does: the number of rows and, in order, the
  named columns with one cell per row. A cell is a value or \<open>NaN\<close>, which stands where a
  record has no entry for the column. Built from a list of records, the frame has the keys
  of the records as columns, in the order in which they first occur. (pandas turns a column
  of integers that has a \<open>NaN\<close> into floating point; the text of such cells is not modelled.)
\<close>

datatype cell = NaN | Val pyval

record dataframe =
  nrows :: nat
  cols :: "(string \<times> cell list) list"

definition first_seen :: "string list \<Rightarrow> string list" where
  "first_seen ks = rev (remdups (rev ks))"

definition DataFrame :: "pydict list \<Rightarrow> dataframe" where
  "DataFrame records =
     \<lparr>nrows = length records,
      cols = map (\<lambda>c. (c, map (\<lambda>r. case map_of r c of None \<Rightarrow> NaN | Some v \<Rightarrow> Val v) records))
               (first_seen (concat (map (map fst) records)))\<rparr>"

definition df_columns :: "dataframe \<Rightarrow> string list" where
  "df_columns df = map fst (cols df)"

text \<open>\<open>df.drop(columns=names)\<close>: a name that is no column raises \<open>KeyError\<close>.\<close>

definition df_drop :: "string list \<Rightarrow> dataframe \<Rightarrow> exn + dataframe" where
  "df_drop names df =
     (case find (\<lambda>n. n \<notin> set (df_columns df)) names of
        Some n \<Rightarrow> Inl (KeyError n)
      | None \<Rightarrow> Inr (df\<lparr>cols := filter (\<lambda>(c, vs). c \<notin> set names) (cols df)\<rparr>))"

text \<open>\<open>df[name]\<close> and \<open>df[names]\<close>.\<close>

definition df_column :: "dataframe \<Rightarrow> string \<Rightarrow> exn + cell list" where
  "df_column df name =
     (case map_of (cols df) name of None \<Rightarrow> Inl (KeyError name) | Some vs \<Rightarrow> Inr vs)"

fun select_columns :: "(string \<times> cell list) list \<Rightarrow> string list \<Rightarrow> exn + (string \<times> cell list) list" where
  "select_columns cs [] = Inr []"
| "select_columns cs (n # ns) =
     (case map_of cs n of
        None \<Rightarrow> Inl (KeyError n)
      | Some vs \<Rightarrow> bind (select_columns cs ns) (\<lambda>rest. Inr ((n, vs) # rest)))"

definition df_select :: "dataframe \<Rightarrow> string list \<Rightarrow> exn + dataframe" where
  "df_select df names = bind (select_columns (cols df) names) (\<lambda>cs. Inr (df\<lparr>cols := cs\<rparr>))"

text \<open>\<open>df[name] = values\<close>: the column is replaced where it stands, or added at the end.\<close>

definition df_set_column :: "dataframe \<Rightarrow> string \<Rightarrow> cell list \<Rightarrow> dataframe" where
  "df_set_column df name vs = df\<lparr>cols := AList.update name vs (cols df)\<rparr>"

text \<open>\<open>str(x)\<close> for a cell, and \<open>re.sub(r'\s+', ' ', s)\<close>.\<close>

fun cell_str :: "cell \<Rightarrow> ustr" where
  "cell_str NaN = ascii ''nan''"
| "cell_str (Val v) = py_str v"

function collapse_spaces :: "ustr \<Rightarrow> ustr" where
  "collapse_spaces [] = []"
| "collapse_spaces (c # cs) =
     (if isspace c then 32 # collapse_spaces (dropWhile isspace cs)
      else c # collapse_spaces cs)"
  by pat_completeness auto
termination
  by (relation "measure length") (auto simp: length_dropWhile_le less_Suc_eq_le)

text \<open>
  \<open>df.sort_values(by=name, ascending=False)\<close>. A name that is no column raises \<open>KeyError\<close>.
  Otherwise pandas computes, from the cells of the column, the order of the rows (its
  \<open>nargsort\<close> with the default sort kind, NumPy's quicksort) and takes the rows in that
  order. That computation is library code outside the repository; it is the parameter
  \<open>argsort\<close>, which returns the row positions in their new order or raises.
\<close>

definition sort_values :: "(cell list \<Rightarrow> exn + nat list) \<Rightarrow> string \<Rightarrow> dataframe \<Rightarrow> exn + dataframe" where
  "sort_values argsort name df =
     bind (df_column df name) (\<lambda>keys.
     bind (argsort keys) (\<lambda>order.
       Inr (df\<lparr>cols := map (\<lambda>(c, vs). (c, map (\<lambda>i. vs ! i) order)) (cols df)\<rparr>)))"

section \<open>\<open>clean_and_reorder_dataframe\<close>\<close>

definition columns_to_drop :: "string list" where
  "columns_to_drop = [''user_id'', ''image_urls'', ''local_image_paths'', ''source'']"

definition desired_columns :: "string list" where
  "desired_columns =
     [''keyword'', ''user_name'', ''weibo_id'', ''content'', ''publish_time'', ''reposts_count'',
      ''comments_count'', ''attitudes_count'', ''post_link'', ''content_score'']"

definition post_link :: "cell \<Rightarrow> cell" where
  "post_link x = Val (PStr (ascii ''https://weibo.com/detail/'' @ cell_str x))"

definition clean_content :: "cell \<Rightarrow> cell" where
  "clean_content x = Val (PStr (strip (collapse_spaces (cell_str x))))"

text \<open>
  The steps inside \<open>try\<close>. The handler returns whatever \<open>df\<close> names when a step raises:
  the frame given while \<open>drop\<close> has not returned, later the frame as the steps so far left it.
\<close>

definition add_post_link :: "dataframe \<Rightarrow> exn + dataframe" where
  "add_post_link df =
     (if ''post_link'' \<notin> set (df_columns df) \<and> ''weibo_id'' \<in> set (df_columns df)
      then bind (df_column df ''weibo_id'') (\<lambda>ids. Inr (df_set_column df ''post_link'' (map post_link ids)))
      else Inr df)"

definition clean_content_column :: "dataframe \<Rightarrow> exn + dataframe" where
  "clean_content_column df =
     (if ''content'' \<in> set (df_columns df)
      then bind (df_column df ''content'') (\<lambda>texts. Inr (df_set_column df ''content'' (map clean_content texts)))
      else Inr df)"

definition reorder_columns :: "dataframe \<Rightarrow> exn + dataframe" where
  "reorder_columns df = df_select df (filter (\<lambda>c. c \<in> set (df_columns df)) desired_columns)"

definition clean_and_reorder_dataframe :: "dataframe \<Rightarrow> dataframe" where
  "clean_and_reorder_dataframe df =
     (case df_drop (filter (\<lambda>c. c \<in> set (df_columns df)) columns_to_drop) df of
        Inl e \<Rightarrow> df
      | Inr df1 \<Rightarrow>
          (case add_post_link df1 of
             Inl e \<Rightarrow> df1
           | Inr df2 \<Rightarrow>
               (case clean_content_column df2 of
                  Inl e \<Rightarrow> df2
                | Inr df3 \<Rightarrow>
                    (case reorder_columns df3 of Inl e \<Rightarrow> df3 | Inr df4 \<Rightarrow> df4))))"

section \<open>The collaborators and the effects of a run\<close>

text \<open>
  The result of the scorer: a dictionary that may have the entries \<open>filtered_weibos\<close> and
  \<open>trending_topics\<close>.
\<close>

record analysis =
  filtered_weibos :: "post list option"
  trending_topics :: "pydict list option"

text \<open>
  Everything outside the repository that a run consults: the fetcher (\<open>spider\<close>), the scorer
  (\<open>ml_analyzer\<close>), the file system, the image encoder, the clock and the sort of pandas.
  A call that may raise returns a sum. The fetcher's result \<open>None\<close> and its result \<open>[]\<close> are
  both the empty list (the program only tests \<open>if not results\<close>); a false result of the
  scorer (\<open>None\<close> or \<open>{}\<close>) is \<open>None\<close>.
\<close>

record world =
  search_keyword :: "ustr \<Rightarrow> pyval \<Rightarrow> pyval \<Rightarrow> exn + post list"
  search_user :: "ustr \<Rightarrow> ustr \<Rightarrow> pyval \<Rightarrow> exn + post list"
  extract_user_id :: "ustr \<Rightarrow> ustr option"
  download_media :: "ustr \<Rightarrow> ustr \<Rightarrow> pyval \<Rightarrow> exn + ustr option"
  analyze_weibos :: "post list \<Rightarrow> pyval \<Rightarrow> pyval \<Rightarrow> pyval \<Rightarrow> pyval \<Rightarrow> exn + analysis option"
  path_exists :: "ustr \<Rightarrow> bool"
  image_to_base64 :: "ustr \<Rightarrow> ustr"
  clock :: datetime
  argsort :: "cell list \<Rightarrow> exn + nat list"

text \<open>
  The effects a run leaves behind, in order: the calls to the fetcher and the scorer with
  their arguments, the files written, and the warnings and errors logged (messages of level
  \<open>info\<close> are left out; \<open>LogError\<close> is the error a handler logs for the exception it
  caught). Writing a result file is taken to succeed.
\<close>

datatype event =
    Fetch ustr pyval pyval
  | FetchUser ustr ustr pyval
  | Score "post list" pyval pyval pyval pyval
  | Download ustr ustr pyval
  | WriteCsv ustr dataframe
  | WriteJson ustr analysis
  | LogWarning
  | LogMissingInput
  | LogError exn

text \<open>A computation leaves a trace of events and ends with a value or an exception.\<close>

type_synonym 'a comp = "event list \<times> (exn + 'a)"

definition ret :: "'a \<Rightarrow> 'a comp" where
  "ret x = ([], Inr x)"

definition lift :: "exn + 'a \<Rightarrow> 'a comp" where
  "lift r = ([], r)"

definition emit :: "event \<Rightarrow> unit comp" where
  "emit ev = ([ev], Inr ())"

definition and_then :: "'a comp \<Rightarrow> ('a \<Rightarrow> 'b comp) \<Rightarrow> 'b comp" where
  "and_then m f =
     (case m of
        (t, Inl e) \<Rightarrow> (t, Inl e)
      | (t, Inr x) \<Rightarrow> (case f x of (t', r) \<Rightarrow> (t @ t', r)))"

text \<open>\<open>try: body except Exception as e: logging.error(...); handler\<close>.\<close>

definition catch :: "'a comp \<Rightarrow> 'a \<Rightarrow> 'a comp" where
  "catch body dflt =
     (case body of
        (t, Inl e) \<Rightarrow> (t @ [LogError e], Inr dflt)
      | (t, Inr x) \<Rightarrow> (t, Inr x))"

section \<open>\<open>download_filtered_media\<close> and \<open>add_image_data_to_weibos\<close>\<close>

text \<open>\<open>s.split('|')\<close> on a value: only a string has the method.\<close>

definition split_bar :: "pyval \<Rightarrow> exn + ustr list" where
  "split_bar v = (case v of PStr s \<Rightarrow> Inr (split 124 s) | _ \<Rightarrow> Inl AttributeError)"

fun download_urls :: "world \<Rightarrow> ustr \<Rightarrow> post \<Rightarrow> ustr list \<Rightarrow> ustr list \<Rightarrow> (ustr list) comp" where
  "download_urls w keyword weibo [] image_paths = ret image_paths"
| "download_urls w keyword weibo (url # urls) image_paths =
     (if url \<noteq> [] then
        and_then (lift (dict_item weibo ''weibo_id'')) (\<lambda>wid.
        and_then (emit (Download url keyword wid)) (\<lambda>_.
        and_then (lift (download_media w url keyword wid)) (\<lambda>local_path.
          download_urls w keyword weibo urls
            (case local_path of
               None \<Rightarrow> image_paths
             | Some p \<Rightarrow> if p \<noteq> [] then image_paths @ [p] else image_paths))))
      else download_urls w keyword weibo urls image_paths)"

definition download_post :: "world \<Rightarrow> ustr \<Rightarrow> post \<Rightarrow> post comp" where
  "download_post w keyword weibo =
     (if truthy (dict_get weibo ''has_images'' (PBool False)) then
        and_then (lift (split_bar (dict_get weibo ''image_urls'' (PStr [])))) (\<lambda>image_urls.
        and_then (download_urls w keyword weibo image_urls []) (\<lambda>image_paths.
          ret (dict_set weibo ''image_paths'' (PStr (join [124] image_paths)))))
      else ret weibo)"

fun download_filtered_media :: "world \<Rightarrow> post list \<Rightarrow> ustr \<Rightarrow> (post list) comp" where
  "download_filtered_media w [] keyword = ret []"
| "download_filtered_media w (weibo # weibos) keyword =
     and_then (download_post w keyword weibo) (\<lambda>weibo'.
     and_then (download_filtered_media w weibos keyword) (\<lambda>weibos'. ret (weibo' # weibos')))"

definition encode_paths :: "world \<Rightarrow> ustr list \<Rightarrow> ustr list" where
  "encode_paths w paths =
     filter (\<lambda>b. b \<noteq> [])
       (map (image_to_base64 w) (filter (\<lambda>path. path \<noteq> [] \<and> path_exists w path) paths))"

definition add_image_data :: "world \<Rightarrow> post \<Rightarrow> exn + post" where
  "add_image_data w weibo =
     (let image_paths = dict_get weibo ''image_paths'' (PStr [])
      in bind (if truthy image_paths
               then bind (split_bar image_paths) (\<lambda>paths. Inr (encode_paths w paths))
               else Inr []) (\<lambda>base64_images.
           Inr (dict_set (dict_set weibo ''image_base64'' (PStr (join [124] base64_images)))
                  ''image_count'' (PInt (int (length base64_images))))))"

fun add_image_data_to_weibos :: "world \<Rightarrow> post list \<Rightarrow> exn + post list" where
  "add_image_data_to_weibos w [] = Inr []"
| "add_image_data_to_weibos w (weibo # weibos) =
     bind (add_image_data w weibo) (\<lambda>weibo'.
     bind (add_image_data_to_weibos w weibos) (\<lambda>weibos'. Inr (weibo' # weibos')))"

section \<open>\<open>process_keyword\<close>\<close>

text \<open>
  The format \<open>{topic['score']:.2f}\<close> raises for a string and for \<open>None\<close>; the log line of a
  trending topic reads the three entries in order.
\<close>

definition format_2f :: "pyval \<Rightarrow> exn + unit" where
  "format_2f v = (case v of PStr s \<Rightarrow> Inl ValueError | PNone \<Rightarrow> Inl TypeError | _ \<Rightarrow> Inr ())"

definition log_topic :: "pydict \<Rightarrow> exn + unit" where
  "log_topic topic =
     bind (dict_item topic ''keyword'') (\<lambda>k.
     bind (dict_item topic ''score'') (\<lambda>sc.
     bind (format_2f sc) (\<lambda>_.
     bind (dict_item topic ''weibo_count'') (\<lambda>n. Inr ()))))"

fun log_topics :: "pydict list \<Rightarrow> exn + unit" where
  "log_topics [] = Inr ()"
| "log_topics (topic # topics) = bind (log_topic topic) (\<lambda>_. log_topics topics)"

text \<open>
  The keyword arguments of the call of the scorer, evaluated in order: \<open>min_score\<close> and
  \<open>min_likes\<close> are read with \<open>config[...]\<close>, \<open>min_comments\<close> and \<open>min_forwards\<close> fall back
  to 0.
\<close>

definition threshold_or_zero :: "pydict \<Rightarrow> string \<Rightarrow> exn + pyval" where
  "threshold_or_zero config key = (if dict_has config key then dict_item config key else Inr (PInt 0))"

definition call_scorer :: "world \<Rightarrow> pydict \<Rightarrow> post list \<Rightarrow> (analysis option) comp" where
  "call_scorer w config posts =
     and_then (lift (dict_item config ''min_score'')) (\<lambda>min_score.
     and_then (lift (dict_item config ''min_likes'')) (\<lambda>min_likes.
     and_then (lift (threshold_or_zero config ''min_comments'')) (\<lambda>min_comments.
     and_then (lift (threshold_or_zero config ''min_forwards'')) (\<lambda>min_forwards.
     and_then (emit (Score posts min_score min_likes min_comments min_forwards)) (\<lambda>_.
       lift (analyze_weibos w posts min_score min_likes min_comments min_forwards))))))"

text \<open>The part of the body after the scorer has returned an analysis with filtered posts.\<close>

definition materialize_media :: "world \<Rightarrow> pydict \<Rightarrow> ustr \<Rightarrow> post list \<Rightarrow> (post list) comp" where
  "materialize_media w config keyword posts =
     and_then (lift (dict_item config ''download_media'')) (\<lambda>dm.
     and_then (if truthy dm then download_filtered_media w posts keyword else ret posts) (\<lambda>posts1.
     and_then (lift (dict_item config ''download_media'')) (\<lambda>dm'.
       if truthy dm' then lift (add_image_data_to_weibos w posts1) else ret posts1)))"

definition save_results :: "world \<Rightarrow> ustr \<Rightarrow> ustr \<Rightarrow> analysis \<Rightarrow> post list \<Rightarrow> (post list option) comp" where
  "save_results w keyword now analysis_result filtered_results =
     (let df = clean_and_reorder_dataframe (DataFrame filtered_results)
      in and_then (lift (sort_values (argsort w) ''likes'' df)) (\<lambda>df'.
         and_then (emit (WriteCsv (ascii ''results/'' @ keyword @ ascii ''_'' @ now @ ascii ''.csv'') df')) (\<lambda>_.
         and_then (emit (WriteJson (ascii ''results/'' @ keyword @ ascii ''_analysis_'' @ now @ ascii ''.json'')
                     (analysis_result\<lparr>filtered_weibos := Some filtered_results\<rparr>))) (\<lambda>_.
         and_then (case trending_topics analysis_result of
                     None \<Rightarrow> ret ()
                   | Some topics \<Rightarrow> lift (log_topics topics)) (\<lambda>_.
           ret (Some filtered_results))))))"

definition score_and_save :: "world \<Rightarrow> ustr \<Rightarrow> pydict \<Rightarrow> ustr \<Rightarrow> ustr \<Rightarrow> post list \<Rightarrow> (post list option) comp" where
  "score_and_save w keyword config now keyword_type posts =
     and_then (call_scorer w config posts) (\<lambda>analysis_result.
       case analysis_result of
         None \<Rightarrow> and_then (emit LogWarning) (\<lambda>_. ret None)
       | Some a \<Rightarrow>
           (case filtered_weibos a of
              None \<Rightarrow> and_then (emit LogWarning) (\<lambda>_. ret None)
            | Some filtered_results \<Rightarrow>
                and_then (materialize_media w config keyword
                            (map (\<lambda>weibo. dict_set weibo ''type'' (PStr keyword_type)) filtered_results))
                  (save_results w keyword now a)))"

text \<open>The body of the \<open>try\<close> statement of \<open>process_keyword\<close>.\<close>

definition process_keyword_body ::
    "world \<Rightarrow> ustr \<Rightarrow> pydict \<Rightarrow> ustr \<Rightarrow> keyword_map \<Rightarrow> (post list option) comp" where
  "process_keyword_body w keyword config now keyword_to_type =
     (let keyword_type = classify keyword_to_type keyword
      in and_then (lift (dict_item config ''default_pages'')) (\<lambda>pages.
         and_then (lift (dict_item config ''start_page'')) (\<lambda>start_page.
         and_then (emit (Fetch keyword pages start_page)) (\<lambda>_.
         and_then (lift (search_keyword w keyword pages start_page)) (\<lambda>results.
           if results = [] then and_then (emit LogWarning) (\<lambda>_. ret None)
           else
             and_then (lift (filter_by_time_and_media (clock w) results)) (\<lambda>kept.
               if kept = [] then and_then (emit LogWarning) (\<lambda>_. ret None)
               else score_and_save w keyword config now keyword_type kept))))))"

text \<open>\<open>process_keyword\<close>: every exception of the body is logged and the result is \<open>None\<close>.\<close>

definition process_keyword ::
    "world \<Rightarrow> ustr \<Rightarrow> pydict \<Rightarrow> ustr \<Rightarrow> keyword_map \<Rightarrow> (post list option) comp" where
  "process_keyword w keyword config now keyword_to_type =
     catch (process_keyword_body w keyword config now keyword_to_type) None"

section \<open>The run over users and keywords in \<open>main\<close>\<close>







text \<open>
  Saving the collected posts: the outer \<open>try\<close> of \<open>main\<close> around the frame, its cleaning,
  the sort by \<open>attitudes_count\<close> and the file. (The picture gallery made afterwards is a
  separate module and is left out.)
\<close>

definition save_all_body :: "world \<Rightarrow> ustr \<Rightarrow> post list \<Rightarrow> unit comp" where
  "save_all_body w now all_results =
     (let df_all = clean_and_reorder_dataframe (DataFrame all_results)
      in and_then (lift (sort_values (argsort w) ''attitudes_count'' df_all)) (\<lambda>df_sorted.
           emit (WriteCsv (ascii ''results/all_results_'' @ now @ ascii ''.csv'') df_sorted)))"

definition save_all :: "world \<Rightarrow> ustr \<Rightarrow> post list \<Rightarrow> unit comp" where
  "save_all w now all_results =
     (if all_results \<noteq> [] then catch (save_all_body w now all_results) ()
      else emit LogWarning)"


text \<open>The keyword and the classification of a row of the table.\<close>

definition row_pair :: "ustr list \<Rightarrow> ustr \<times> ustr" where
  "row_pair row = (hd row, hd (tl row))"

section \<open>What a unit contributes, and a small world for examples\<close>


text \<open>
  A world for the examples: at 2024-05-23T12:00:00 the fetcher finds one post, five minutes
  old, with an image and seven likes; the scorer keeps every post it is given; nothing is
  downloaded; rows are taken in the order they have. In \<open>failing_world\<close> the fetcher raises
  on the keyword \<open>bad\<close>.
\<close>

definition example_post :: post where
  "example_post =
     [(''weibo_id'', PStr (ascii ''1'')), (''content'', PStr (ascii ''hello'')),
      (''publish_time'', PStr (53 # minutes_ago)), (''has_images'', PBool True),
      (''likes'', PInt 7)]"

definition example_world :: world where
  "example_world =
     \<lparr>search_keyword = (\<lambda>keyword pages start_page. Inr [example_post]),
      search_user = (\<lambda>user_url keyword dm. Inr [example_post]),
      extract_user_id = (\<lambda>user_url. None),
      download_media = (\<lambda>url keyword wid. Inr None),
      analyze_weibos = (\<lambda>posts a b c d.
         Inr (Some \<lparr>filtered_weibos = Some posts, trending_topics = None\<rparr>)),
      path_exists = (\<lambda>path. False),
      image_to_base64 = (\<lambda>path. []),
      clock = 63852062400000000,
      argsort = (\<lambda>keys. Inr [0..<length keys])\<rparr>"


text \<open>The configuration \<open>load_config\<close> returns for a file that holds only a start page.\<close>

definition example_config :: pydict where
  "example_config = fst (load_config True (Object [(''start_page'', PInt 1)]))"

section \<open>Facts about strings\<close>

lemma prefix_contains: "prefix old xs \<Longrightarrow> contains old xs"
  by (cases xs) auto

lemma contains_append_left: "contains old ys \<Longrightarrow> contains old (xs @ ys)"
  by (induction xs) auto

lemma contains_marker_suffix: "contains m (s @ m)"
  by (rule contains_append_left) (simp add: prefix_contains)

lemma contains_set: "contains old xs \<Longrightarrow> set old \<subseteq> set xs"
proof (induction xs)
  case Nil
  then show ?case by simp
next
  case (Cons a xs)
  from Cons.prems have "prefix old (a # xs) \<or> contains old xs" by simp
  then show ?case
  proof
    assume "prefix old (a # xs)"
    then show ?thesis by (rule set_mono_prefix)
  next
    assume "contains old xs"
    with Cons.IH show ?thesis by auto
  qed
qed

lemma replace_marker_suffix: "c \<notin> set s \<Longrightarrow> replace (s @ c # rest) (c # rest) [] = s"
  by (induction s) auto

lemma set_dropWhile_or: "x \<in> set xs \<Longrightarrow> x \<in> set (dropWhile P xs) \<or> P x"
  by (metis Un_iff set_append set_takeWhileD takeWhile_dropWhile_id)

lemma lstrip_append_marker: "m \<noteq> [] \<Longrightarrow> \<not> isspace (hd m) \<Longrightarrow> lstrip (s @ m) = lstrip s @ m"
  unfolding lstrip_def by (induction s) (auto simp: neq_Nil_conv)

lemma rstrip_append_marker: "m \<noteq> [] \<Longrightarrow> \<not> isspace (last m) \<Longrightarrow> rstrip (s @ m) = s @ m"
  unfolding rstrip_def by (cases m rule: rev_cases) auto

lemma strip_append_marker:
  "m \<noteq> [] \<Longrightarrow> \<not> isspace (hd m) \<Longrightarrow> \<not> isspace (last m) \<Longrightarrow> strip (s @ m) = lstrip s @ m"
  by (simp add: strip_def lstrip_append_marker rstrip_append_marker)

lemma rstrip_prefix: "prefix (rstrip y) y"
  unfolding rstrip_def by (metis suffix_dropWhile suffix_to_prefix rev_rev_ident)

lemma lstrip_head: "lstrip s = [] \<or> \<not> isspace (hd (lstrip s))"
  unfolding lstrip_def by (metis hd_dropWhile)

lemma lstrip_id: "y = [] \<or> \<not> isspace (hd y) \<Longrightarrow> lstrip y = y"
  unfolding lstrip_def by (cases y) auto

lemma rstrip_idem: "rstrip (rstrip y) = rstrip y"
  unfolding rstrip_def by simp

lemma strip_head: "strip s = [] \<or> \<not> isspace (hd (strip s))"
proof (cases "strip s = []")
  case False
  have "prefix (strip s) (lstrip s)" unfolding strip_def by (rule rstrip_prefix)
  with False have "hd (strip s) = hd (lstrip s)" "lstrip s \<noteq> []"
    by (auto simp: prefix_def)
  with lstrip_head[of s] show ?thesis by auto
qed simp

lemma strip_idem: "strip (strip s) = strip s"
proof -
  have "lstrip (strip s) = strip s" by (rule lstrip_id) (rule strip_head)
  then show ?thesis by (simp add: strip_def[of "strip s"]) (simp add: strip_def rstrip_idem)
qed

lemma strip_lstrip: "strip (lstrip s) = strip s"
  by (simp add: strip_def lstrip_def)

section \<open>Facts about \<open>int()\<close> and the relative offsets\<close>

lemma those_all_Some: "those xs = Some ys \<Longrightarrow> None \<notin> set xs"
  by (induction xs arbitrary: ys) (auto split: option.splits)

lemma digit_group_chars: "digit_group g = Some ds \<Longrightarrow> c \<in> set g \<Longrightarrow> isdecimal c"
proof -
  assume a: "digit_group g = Some ds" "c \<in> set g"
  then have "those (map digit_value g) = Some ds"
    by (auto simp: digit_group_def split: if_splits)
  then have "None \<notin> set (map digit_value g)" by (rule those_all_Some)
  with a(2) have "digit_value c \<noteq> None" by force
  then show "isdecimal c" by (simp add: isdecimal_def)
qed

lemma digit_groups_chars:
  "digit_groups gs = Some ds \<Longrightarrow> g \<in> set gs \<Longrightarrow> c \<in> set g \<Longrightarrow> isdecimal c"
  by (induction gs arbitrary: ds) (auto split: option.splits dest: digit_group_chars)

lemma split_chars: "c \<in> set body \<Longrightarrow> c = sep \<or> (\<exists>g \<in> set (split sep body). c \<in> set g)"
  by (induction body) (auto split: list.splits if_splits)

lemma int_of_literal_chars:
  assumes "int_of_literal body = Inr n" "c \<in> set body"
  shows "c = 95 \<or> isdecimal c"
proof -
  from assms(1) obtain ds where ds: "digit_groups (split 95 body) = Some ds"
    unfolding int_of_literal_def by (auto split: option.splits)
  from split_chars[OF assms(2), of 95] show ?thesis
  proof
    assume "c = 95"
    then show ?thesis ..
  next
    assume "\<exists>g\<in>set (split 95 body). c \<in> set g"
    then obtain g where "g \<in> set (split 95 body)" "c \<in> set g" by blast
    with ds have "isdecimal c" by (rule digit_groups_chars)
    then show ?thesis by simp
  qed
qed

lemma py_int_chars:
  assumes "py_int s = Inr n" "c \<in> set (strip s)"
  shows "c = 45 \<or> c = 43 \<or> c = 95 \<or> isdecimal c"
proof (cases "strip s")
  case Nil
  with assms show ?thesis by simp
next
  case (Cons a r)
  with assms(1) have "(a = 45 \<or> a = 43) \<and> (\<exists>m. int_of_literal r = Inr m) \<or> (\<exists>m. int_of_literal (a # r) = Inr m)"
    unfolding py_int_def by (cases "int_of_literal r") (auto split: if_splits)
  with assms(2) Cons show ?thesis
    by (auto dest: int_of_literal_chars)
qed

lemma not_decimal_marker: "\<not> isdecimal 20998" "\<not> isdecimal 23567"
  by (simp_all add: isdecimal_def digit_value_def decimal_ranges_def)

lemma py_int_lstrip_chars:
  assumes "py_int s = Inr n" "c \<in> set (lstrip s)"
  shows "c = 45 \<or> c = 43 \<or> c = 95 \<or> isdecimal c \<or> isspace c"
proof -
  have "c \<in> set (rev (lstrip s))" using assms(2) by simp
  then have "c \<in> set (dropWhile isspace (rev (lstrip s))) \<or> isspace c"
    by (rule set_dropWhile_or)
  then have "c \<in> set (strip s) \<or> isspace c"
    by (simp add: strip_def rstrip_def)
  with py_int_chars[OF assms(1)] show ?thesis by blast
qed

lemma py_int_no_marker:
  assumes "py_int s = Inr n"
  shows "20998 \<notin> set (lstrip s)" "23567 \<notin> set (lstrip s)"
proof -
  show "20998 \<notin> set (lstrip s)"
    using py_int_lstrip_chars[OF assms, of 20998] not_decimal_marker by (auto simp: isspace_def)
  show "23567 \<notin> set (lstrip s)"
    using py_int_lstrip_chars[OF assms, of 23567] not_decimal_marker by (auto simp: isspace_def)
qed

lemma py_int_strip: "py_int (strip s) = py_int s"
  by (simp add: py_int_def strip_idem)

lemma py_int_lstrip: "py_int (lstrip s) = py_int s"
  by (simp add: py_int_def strip_lstrip)

lemma parse_minutes_arg:
  assumes "py_int s = Inr n"
  shows "strip (s @ minutes_ago) = lstrip s @ minutes_ago"
    and "contains minutes_ago (lstrip s @ minutes_ago)"
    and "py_int (strip (replace (lstrip s @ minutes_ago) minutes_ago [])) = Inr n"
proof -
  show "strip (s @ minutes_ago) = lstrip s @ minutes_ago"
    by (rule strip_append_marker) (simp_all add: minutes_ago_def isspace_def)
  show "contains minutes_ago (lstrip s @ minutes_ago)" by (rule contains_marker_suffix)
  have "replace (lstrip s @ minutes_ago) minutes_ago [] = lstrip s"
    unfolding minutes_ago_def using py_int_no_marker(1)[OF assms] by (rule replace_marker_suffix)
  then show "py_int (strip (replace (lstrip s @ minutes_ago) minutes_ago [])) = Inr n"
    using assms by (simp add: py_int_strip py_int_lstrip)
qed

lemma parse_hours_arg:
  assumes "py_int s = Inr n"
  shows "strip (s @ hours_ago) = lstrip s @ hours_ago"
    and "contains hours_ago (lstrip s @ hours_ago)"
    and "\<not> contains minutes_ago (lstrip s @ hours_ago)"
    and "py_int (strip (replace (lstrip s @ hours_ago) hours_ago [])) = Inr n"
proof -
  show "strip (s @ hours_ago) = lstrip s @ hours_ago"
    by (rule strip_append_marker) (simp_all add: hours_ago_def isspace_def)
  show "contains hours_ago (lstrip s @ hours_ago)" by (rule contains_marker_suffix)
  show "\<not> contains minutes_ago (lstrip s @ hours_ago)"
  proof
    assume "contains minutes_ago (lstrip s @ hours_ago)"
    then have "set minutes_ago \<subseteq> set (lstrip s @ hours_ago)" by (rule contains_set)
    then have "20998 \<in> set (lstrip s)" by (simp add: minutes_ago_def hours_ago_def)
    with py_int_no_marker(1)[OF assms] show False by contradiction
  qed
  have "replace (lstrip s @ hours_ago) hours_ago [] = lstrip s"
    unfolding hours_ago_def using py_int_no_marker(2)[OF assms] by (rule replace_marker_suffix)
  then show "py_int (strip (replace (lstrip s @ hours_ago) hours_ago [])) = Inr n"
    using assms by (simp add: py_int_strip py_int_lstrip)
qed

lemma marker_not_special:
  "lstrip s @ minutes_ago \<noteq> []" "lstrip s @ minutes_ago \<noteq> unknown_time"
  "lstrip s @ hours_ago \<noteq> []" "lstrip s @ hours_ago \<noteq> unknown_time"
proof -
  have "last (lstrip s @ minutes_ago) \<noteq> last unknown_time" "last (lstrip s @ hours_ago) \<noteq> last unknown_time"
    by (simp_all add: minutes_ago_def hours_ago_def unknown_time_def)
  then show "lstrip s @ minutes_ago \<noteq> unknown_time" "lstrip s @ hours_ago \<noteq> unknown_time" by auto
qed (simp_all add: minutes_ago_def hours_ago_def)

lemma timedelta_in_range:
  assumes "0 \<le> now" "now \<le> datetime_max" "0 \<le> now - td" "now - td \<le> datetime_max"
  shows "mk_timedelta td = Inr td"
proof -
  have "\<bar>td\<bar> \<le> datetime_max" using assms by linarith
  then have "- 315537897600000000 < td" "td < 315537897600000000"
    by (simp_all add: datetime_max_def max_ordinal_def us_per_day_def)
  then have "\<bar>td div us_per_day\<bar> \<le> 999999999" unfolding us_per_day_def by linarith
  then show ?thesis by (simp add: mk_timedelta_def)
qed

lemma sub_offset:
  assumes "0 \<le> now" "now \<le> datetime_max"
  shows "bind (mk_timedelta td) (\<lambda>d. bind (dt_sub now d) (\<lambda>r. Inr (Some r))) =
           (if 0 \<le> now - td \<and> now - td \<le> datetime_max then Inr (Some (now - td)) else Inl OverflowError)"
proof (cases "0 \<le> now - td \<and> now - td \<le> datetime_max")
  case True
  with assms have "mk_timedelta td = Inr td" by (simp add: timedelta_in_range)
  with True show ?thesis by (simp add: bind_def dt_sub_def)
next
  case False
  then show ?thesis
    by (auto simp: bind_def dt_sub_def mk_timedelta_def Let_def)
qed

lemma relative_minutes:
  assumes "py_int s = Inr n" and "0 \<le> now" and "now \<le> datetime_max"
  shows "parse_weibo_time (PStr (s @ minutes_ago)) now =
           Inr (if 0 \<le> now - n * 60000000 \<and> now - n * 60000000 \<le> datetime_max
                then Some (now - n * 60000000) else None)"
proof -
  note m = parse_minutes_arg[OF assms(1)]
  have "parse_body (lstrip s @ minutes_ago) now =
          (if 0 \<le> now - n * 60000000 \<and> now - n * 60000000 \<le> datetime_max
           then Inr (Some (now - n * 60000000)) else Inl OverflowError)"
    unfolding parse_body_def using m(2,3) sub_offset[OF assms(2,3)]
    by (simp add: timedelta_minutes_def bind_def[of "Inr n"])
  then show ?thesis
    unfolding parse_weibo_time_def using m(1) marker_not_special(1,2)[of s]
    by (simp add: Let_def)
qed

lemma relative_hours:
  assumes "py_int s = Inr n" and "0 \<le> now" and "now \<le> datetime_max"
  shows "parse_weibo_time (PStr (s @ hours_ago)) now =
           Inr (if 0 \<le> now - n * 3600000000 \<and> now - n * 3600000000 \<le> datetime_max
                then Some (now - n * 3600000000) else None)"
proof -
  note h = parse_hours_arg[OF assms(1)]
  have "parse_body (lstrip s @ hours_ago) now =
          (if 0 \<le> now - n * 3600000000 \<and> now - n * 3600000000 \<le> datetime_max
           then Inr (Some (now - n * 3600000000)) else Inl OverflowError)"
    unfolding parse_body_def using h(2,3,4) sub_offset[OF assms(2,3)]
    by (simp add: timedelta_hours_def bind_def[of "Inr n"])
  then show ?thesis
    unfolding parse_weibo_time_def using h(1) marker_not_special(3,4)[of s]
    by (simp add: Let_def)
qed

lemma py_int_digit_5: "py_int [53] = Inr 5"
  by (simp add: py_int_def int_of_literal_def digit_group_def digit_value_def decimal_ranges_def
      decimal_value_def max_str_digits_def strip_def lstrip_def rstrip_def isspace_def)

lemma py_int_three_milliard: "py_int (ascii ''3000000000'') = Inr 3000000000"
  by (simp add: ascii_def py_int_def int_of_literal_def digit_group_def digit_value_def
      decimal_ranges_def decimal_value_def max_str_digits_def strip_def lstrip_def rstrip_def
      isspace_def)

lemma noon_2024_05_23:
  "mk_datetime 2024 5 23 12 0 = Inr 63852062400000000"
  "mk_datetime 2024 5 23 11 55 = Inr 63852062100000000"
  by (simp_all add: mk_datetime_def ymd2ord_def days_before_year_def days_before_month_def
      days_in_month_def is_leap_def us_per_day_def upto_rec1)

section \<open>The time normalizer\<close>

lemma parse_weibo_time_total: "\<exists>r. parse_weibo_time v now = Inr r"
  unfolding parse_weibo_time_def by (simp add: Let_def split: sum.splits)






lemma strip_unknown_time: "strip unknown_time = unknown_time"
  by (simp add: strip_def lstrip_def rstrip_def unknown_time_def isspace_def)

lemma parse_unknown: "parse_weibo_time (PStr unknown_time) now = Inr None"
  by (simp add: parse_weibo_time_def strip_unknown_time)

text \<open>
  C2, as the code has it. For a string \<open>s\<close> that \<open>int()\<close> reads as the number \<open>n\<close>, the
  inputs \<open>s\<close> followed by the word for "minutes ago" and \<open>s\<close> followed by the word for "hours
  ago" are normalized to the reference instant minus \<open>n\<close> minutes (hours) whenever that
  instant is a datetime Python can represent (from 0001-01-01 to 9999-12-31), and to \<open>None\<close>
  otherwise, because the \<open>OverflowError\<close> of the subtraction is swallowed.
\<close>

theorem relative_offset_normalized:
  assumes "py_int s = Inr n" and "0 \<le> now" and "now \<le> datetime_max"
  shows "parse_weibo_time (PStr (s @ minutes_ago)) now =
           Inr (if 0 \<le> now - n * 60000000 \<and> now - n * 60000000 \<le> datetime_max
                then Some (now - n * 60000000) else None) \<and>
         parse_weibo_time (PStr (s @ hours_ago)) now =
           Inr (if 0 \<le> now - n * 3600000000 \<and> now - n * 3600000000 \<le> datetime_max
                then Some (now - n * 3600000000) else None)"
  using relative_minutes[OF assms] relative_hours[OF assms] by (rule conjI)

text \<open>
  The scenario of the specification: five minutes before 2024-05-23T12:00:00 is
  2024-05-23T11:55:00, and five hours before it is 2024-05-23T07:00:00.
\<close>

theorem relative_offset_normalized_witness:
  "py_int [53] = Inr 5 \<and>
   mk_datetime 2024 5 23 12 0 = Inr 63852062400000000 \<and>
   mk_datetime 2024 5 23 11 55 = Inr 63852062100000000 \<and>
   parse_weibo_time (PStr ([53] @ minutes_ago)) 63852062400000000 = Inr (Some 63852062100000000) \<and>
   parse_weibo_time (PStr ([53] @ hours_ago)) 63852062400000000 = Inr (Some 63852044400000000)"
proof -
  have "(0::int) \<le> 63852062400000000" and "63852062400000000 \<le> datetime_max"
    by (simp_all add: datetime_max_def max_ordinal_def us_per_day_def)
  from relative_offset_normalized[OF py_int_digit_5 this] show ?thesis
    by (simp add: py_int_digit_5 noon_2024_05_23 datetime_max_def max_ordinal_def us_per_day_def)
qed

text \<open>
  The claim as the specification states it fails for a large count: three milliard minutes
  before 2024-05-23T12:00:00 lies before the year 1, and the result is \<open>None\<close>.
\<close>

theorem relative_offset_counterexample:
  "py_int (ascii ''3000000000'') = Inr 3000000000 \<and>
   parse_weibo_time (PStr (ascii ''3000000000'' @ minutes_ago)) 63852062400000000 = Inr None \<and>
   parse_weibo_time (PStr (ascii ''3000000000'' @ minutes_ago)) 63852062400000000
     \<noteq> Inr (Some (63852062400000000 - 3000000000 * 60000000))"
proof -
  have "(0::int) \<le> 63852062400000000" and "63852062400000000 \<le> datetime_max"
    by (simp_all add: datetime_max_def max_ordinal_def us_per_day_def)
  from relative_minutes[OF py_int_three_milliard this] show ?thesis
    by (simp add: py_int_three_milliard datetime_max_def max_ordinal_def us_per_day_def)
qed



section \<open>The recency and media filter\<close>

lemma filter_loop_eq:
  "filter_loop now two ws acc =
     Inr (acc @ filter (\<lambda>w. keeps now two w = Inr True) ws)"
proof (induction ws arbitrary: acc)
  case Nil
  then show ?case by simp
next
  case (Cons w ws)
  obtain b where b: "keeps now two w = Inr b"
    using parse_weibo_time_total[of "dict_get w ''publish_time'' (PStr [])" now]
    by (auto simp: keeps_def bind_def Let_def)
  show ?case by (simp add: b bind_def Cons.IH)
qed

lemma keeps_recent:
  "keeps now (now - 2 * us_per_day) w = Inr (recent_with_media now w)"
  using parse_weibo_time_total[of "dict_get w ''publish_time'' (PStr [])" now]
  by (auto simp: keeps_def recent_with_media_def bind_def Let_def us_per_day_def split: option.splits)

lemma filter_by_time_and_media_eq:
  assumes "2 * us_per_day \<le> now" and "now \<le> datetime_max"
  shows "filter_by_time_and_media now results = Inr (filter (recent_with_media now) results)"
proof -
  have "timedelta_days 2 = Inr (2 * us_per_day)"
    by (simp add: timedelta_days_def mk_timedelta_def us_per_day_def)
  moreover have "dt_sub now (2 * us_per_day) = Inr (now - 2 * us_per_day)"
    using assms by (simp add: dt_sub_def Let_def us_per_day_def)
  ultimately show ?thesis
    by (simp add: filter_by_time_and_media_def bind_def filter_loop_eq keeps_recent)
qed

text \<open>
  C1. With the clock at least two days after \<open>datetime.min\<close> (earlier, the subtraction of
  two days itself overflows), the filter returns exactly the posts of the batch that are
  recent and carry media, in the order of the batch: the posts whose normalized publish
  time is not \<open>None\<close> and is no earlier than 48 hours before the reference instant, and
  whose image flag or video flag is set.
\<close>

theorem filter_keeps_recent_with_media:
  assumes "2 * us_per_day \<le> now" and "now \<le> datetime_max"
  shows "filter_by_time_and_media now results = Inr (filter (recent_with_media now) results)"
  using assms by (rule filter_by_time_and_media_eq)

text \<open>
  An instance at 2024-05-23T12:00:00: of a post five minutes old with an image, a post five
  minutes old without media and a post of unknown time with a video, the first is kept.
\<close>

theorem filter_keeps_recent_with_media_witness:
  "2 * us_per_day \<le> 63852062400000000 \<and> 63852062400000000 \<le> datetime_max \<and>
   filter_by_time_and_media 63852062400000000
     [[(''publish_time'', PStr (53 # minutes_ago)), (''has_images'', PBool True)],
      [(''publish_time'', PStr (53 # minutes_ago))],
      [(''publish_time'', PStr unknown_time), (''has_videos'', PBool True)]] =
   Inr [[(''publish_time'', PStr (53 # minutes_ago)), (''has_images'', PBool True)]]"
proof -
  have r: "2 * us_per_day \<le> 63852062400000000" "63852062400000000 \<le> datetime_max"
    by (simp_all add: datetime_max_def max_ordinal_def us_per_day_def)
  have "(0::int) \<le> 63852062400000000" by simp
  from relative_minutes[OF py_int_digit_5 this r(2), simplified]
  have p: "parse_weibo_time (PStr (53 # minutes_ago)) 63852062400000000 =
             Inr (Some 63852062100000000)"
    by (simp add: datetime_max_def max_ordinal_def us_per_day_def)
  from filter_keeps_recent_with_media[OF r] r show ?thesis
    by (simp add: recent_with_media_def dict_get_def p parse_unknown)
qed

section \<open>The keyword classification table\<close>

lemma classification_loop_map:
  "list_all (\<lambda>r. 2 \<le> length r) rows \<Longrightarrow>
   map_of (classification_loop rows m) = map_of m ++ map_of (rev (map row_pair rows))"
proof (induction rows arbitrary: m)
  case Nil
  then show ?case by simp
next
  case (Cons r rows)
  from Cons.prems obtain k c rest where r: "r = k # c # rest"
    by (cases r; cases "tl r") auto
  from Cons.prems have "list_all (\<lambda>r. 2 \<le> length r) rows" by simp
  from Cons.IH[OF this]
  have "map_of (classification_loop (r # rows) m) =
          map_of (AList.update k c m) ++ map_of (rev (map row_pair rows))"
    by (simp add: r)
  also have "\<dots> = map_of m ++ map_of (rev (map row_pair (r # rows)))"
    by (rule ext) (simp add: map_add_def update_conv' r row_pair_def split: option.splits)
  finally show ?case .
qed

text \<open>
  C5, as the code has it: the last occurrence wins. In a table whose rows all have two
  cells, a keyword is mapped to the classification of the last row that names it.
\<close>

theorem last_row_wins:
  assumes "list_all (\<lambda>r. 2 \<le> length r) (pre @ [k # c # rest] @ post)"
    and "k \<notin> set (map hd post)"
  shows "map_of (load_keyword_classifications (Table (pre @ [k # c # rest] @ post))) k = Some c"
proof -
  have "k \<notin> fst ` set (rev (map row_pair post))"
    using assms(2) by (auto simp: row_pair_def)
  then have "map_of (rev (map row_pair post)) k = None"
    by (simp add: map_of_eq_None_iff)
  then show ?thesis
    using assms(1)
    by (simp add: load_keyword_classifications_def classification_loop_map map_add_def row_pair_def)
qed

text \<open>An instance: the keyword \<open>A\<close> classified \<open>tech\<close> and then \<open>news\<close> is mapped to \<open>news\<close>.\<close>

theorem last_row_wins_witness:
  "list_all (\<lambda>r. 2 \<le> length r) ([[ascii ''A'', ascii ''tech'']] @ [ascii ''A'' # ascii ''news'' # []] @ []) \<and>
   ascii ''A'' \<notin> set (map hd ([] :: ustr list list)) \<and>
   map_of (load_keyword_classifications (Table [[ascii ''A'', ascii ''tech''], [ascii ''A'', ascii ''news'']]))
     (ascii ''A'') = Some (ascii ''news'')"
proof -
  have w: "list_all (\<lambda>r. 2 \<le> length r) ([[ascii ''A'', ascii ''tech'']] @ [ascii ''A'' # ascii ''news'' # []] @ [])"
    and n: "ascii ''A'' \<notin> set (map hd ([] :: ustr list list))"
    by simp_all
  from last_row_wins[OF w n] w n show ?thesis by simp
qed

text \<open>
  The claim as the specification states it (the first occurrence wins) fails on that table:
  the classification of \<open>A\<close> is \<open>news\<close>, that of its second row, not \<open>tech\<close>.
\<close>

theorem first_row_wins_counterexample:
  "classify (load_keyword_classifications
       (Table [[ascii ''A'', ascii ''tech''], [ascii ''A'', ascii ''news'']])) (ascii ''A'') = ascii ''news'' \<and>
   classify (load_keyword_classifications
       (Table [[ascii ''A'', ascii ''tech''], [ascii ''A'', ascii ''news'']])) (ascii ''A'') \<noteq> ascii ''tech''"
  by (simp add: load_keyword_classifications_def classify_def ascii_def)

section \<open>The configuration file\<close>

lemma fill_defaults_map:
  "map_of (fill_defaults ds c) k = (case map_of c k of Some v \<Rightarrow> Some v | None \<Rightarrow> map_of ds k)"
proof (induction ds arbitrary: c)
  case Nil
  then show ?case by (simp split: option.splits)
next
  case (Cons d ds)
  obtain key v where d: "d = (key, v)" by (cases d)
  show ?case
    by (auto simp: d Cons.IH dict_has_def dict_set_def update_conv' split: option.splits)
qed

lemma fill_defaults_map_add: "map_of (fill_defaults ds c) = map_of ds ++ map_of c"
  by (rule ext) (simp add: fill_defaults_map map_add_def split: option.splits)

text \<open>
  C7, as the code has it. For a configuration file that holds a JSON object,
  \<open>load_config\<close> returns the configuration of the file with every missing key of the
  defaults filled from the defaults, and leaves the file as it is. For a file it cannot
  read or parse it returns the defaults and leaves the file as it is. Only when there is
  no file does it write one, holding the defaults.
\<close>

theorem load_config_fills_without_writing:
  "map_of (fst (load_config writable (Object config))) = map_of default_config ++ map_of config \<and>
   snd (load_config writable (Object config)) = Object config \<and>
   load_config writable Unparseable = (default_config, Unparseable) \<and>
   load_config True Missing = (default_config, Object default_config)"
  by (simp add: load_config_def fill_defaults_map_add)

text \<open>
  The claim as the specification states it fails for the file \<open>{}\<close>: the configuration
  returned is the defaults, and the file still holds \<open>{}\<close>, not the repaired configuration.
\<close>

theorem load_config_counterexample:
  "fst (load_config True (Object [])) = default_config \<and>
   snd (load_config True (Object [])) = Object [] \<and>
   snd (load_config True (Object [])) \<noteq> Object (fst (load_config True (Object [])))"
  by (simp add: load_config_def default_config_def dict_has_def dict_set_def)

section \<open>Cleaning a data frame\<close>

lemma df_drop_present:
  "df_drop (filter (\<lambda>c. c \<in> set (df_columns df)) names) df =
     Inr (df\<lparr>cols := filter (\<lambda>(c, vs). c \<notin> set (filter (\<lambda>c. c \<in> set (df_columns df)) names)) (cols df)\<rparr>)"
proof -
  have "find (\<lambda>n. n \<notin> set (df_columns df)) (filter (\<lambda>c. c \<in> set (df_columns df)) names) = None"
    by (simp add: find_None_iff)
  then show ?thesis by (simp add: df_drop_def)
qed

lemma df_column_present:
  "name \<in> set (df_columns df) \<Longrightarrow> \<exists>vs. df_column df name = Inr vs"
  unfolding df_column_def df_columns_def
  by (cases "map_of (cols df) name") (auto simp: map_of_eq_None_iff)

lemma add_post_link_ok: "\<exists>df'. add_post_link df = Inr df'"
  using df_column_present[of "''weibo_id''" df]
  by (auto simp: add_post_link_def bind_def)

lemma clean_content_column_ok: "\<exists>df'. clean_content_column df = Inr df'"
  using df_column_present[of "''content''" df]
  by (auto simp: clean_content_column_def bind_def)

lemma select_columns_present:
  "set names \<subseteq> fst ` set cs \<Longrightarrow>
   \<exists>sel. select_columns cs names = Inr sel \<and> map fst sel = names"
proof (induction names)
  case Nil
  then show ?case by simp
next
  case (Cons n names)
  then obtain sel where sel: "select_columns cs names = Inr sel" "map fst sel = names" by auto
  from Cons.prems obtain vs where "map_of cs n = Some vs"
    by (cases "map_of cs n") (auto simp: map_of_eq_None_iff)
  with sel show ?case by (simp add: bind_def)
qed

lemma reorder_columns_ok:
  "\<exists>df'. reorder_columns df = Inr df' \<and>
     df_columns df' = filter (\<lambda>c. c \<in> set (df_columns df)) desired_columns"
proof -
  have "set (filter (\<lambda>c. c \<in> set (df_columns df)) desired_columns) \<subseteq> fst ` set (cols df)"
    by (auto simp: df_columns_def)
  from select_columns_present[OF this] show ?thesis
    by (auto simp: reorder_columns_def df_select_def bind_def df_columns_def)
qed

lemma clean_and_reorder_columns:
  "set (df_columns (clean_and_reorder_dataframe df)) \<subseteq> set desired_columns"
proof -
  obtain df1 where d1: "df_drop (filter (\<lambda>c. c \<in> set (df_columns df)) columns_to_drop) df = Inr df1"
    using df_drop_present by blast
  obtain df2 where d2: "add_post_link df1 = Inr df2" using add_post_link_ok by blast
  obtain df3 where d3: "clean_content_column df2 = Inr df3" using clean_content_column_ok by blast
  obtain df4 where d4: "reorder_columns df3 = Inr df4"
    "df_columns df4 = filter (\<lambda>c. c \<in> set (df_columns df3)) desired_columns"
    using reorder_columns_ok by blast
  have "clean_and_reorder_dataframe df = df4"
    by (simp add: clean_and_reorder_dataframe_def d1 d2 d3 d4(1))
  with d4(2) show ?thesis by auto
qed

text \<open>
  C9. Whatever frame is cleaned, none of the four internal columns is a column of the
  result, so no row of the assembled output has a cell for any of them.
\<close>

theorem dropped_columns_absent:
  "''user_id'' \<notin> set (df_columns (clean_and_reorder_dataframe df)) \<and>
   ''image_urls'' \<notin> set (df_columns (clean_and_reorder_dataframe df)) \<and>
   ''local_image_paths'' \<notin> set (df_columns (clean_and_reorder_dataframe df)) \<and>
   ''source'' \<notin> set (df_columns (clean_and_reorder_dataframe df))"
  using clean_and_reorder_columns[of df] by (auto simp: desired_columns_def)

lemma sort_by_likes_raises:
  "sort_values a ''likes'' (clean_and_reorder_dataframe df) = Inl (KeyError ''likes'')"
proof -
  have "''likes'' \<notin> set (df_columns (clean_and_reorder_dataframe df))"
    using clean_and_reorder_columns[of df] by (auto simp: desired_columns_def)
  then have "map_of (cols (clean_and_reorder_dataframe df)) ''likes'' = None"
    by (simp add: df_columns_def map_of_eq_None_iff)
  then show ?thesis by (simp add: sort_values_def df_column_def bind_def)
qed

section \<open>Computations with a trace\<close>

lemma fst_ret [simp]: "fst (ret x) = []" and snd_ret [simp]: "snd (ret x) = Inr x"
  by (simp_all add: ret_def)

lemma fst_lift [simp]: "fst (lift r) = []" and snd_lift [simp]: "snd (lift r) = r"
  by (simp_all add: lift_def)

lemma fst_emit [simp]: "fst (emit ev) = [ev]" and snd_emit [simp]: "snd (emit ev) = Inr ()"
  by (simp_all add: emit_def)

lemma and_then_lift_Inl [simp]: "and_then (lift (Inl e)) f = ([], Inl e)"
  by (simp add: and_then_def lift_def)

lemma and_then_lift_Inr [simp]: "and_then (lift (Inr x)) f = f x"
  by (simp add: and_then_def lift_def split: prod.splits)

lemma and_then_ret [simp]: "and_then (ret x) f = f x"
  by (simp add: and_then_def ret_def split: prod.splits)

lemma and_then_emit [simp]: "and_then (emit ev) f = (ev # fst (f ()), snd (f ()))"
  by (simp add: and_then_def emit_def split: prod.splits)

lemma fst_and_then:
  "fst (and_then m f) = (case snd m of Inl e \<Rightarrow> fst m | Inr x \<Rightarrow> fst m @ fst (f x))"
  by (cases m; cases "snd m") (auto simp: and_then_def split: prod.splits)

lemma and_then_events:
  assumes "set (fst m) \<subseteq> S" and "\<And>x. set (fst (f x)) \<subseteq> S"
  shows "set (fst (and_then m f)) \<subseteq> S"
proof (cases "snd m")
  case (Inl e)
  with assms(1) show ?thesis by (simp add: fst_and_then)
next
  case (Inr x)
  with assms(1) assms(2)[of x] show ?thesis by (simp add: fst_and_then)
qed


lemma catch_raised: "body = (t, Inl e) \<Longrightarrow> catch body dflt = (t @ [LogError e], Inr dflt)"
  by (simp add: catch_def)

lemma catch_returned: "body = (t, Inr x) \<Longrightarrow> catch body dflt = (t, Inr x)"
  by (simp add: catch_def)

lemma save_results_raises:
  "save_results w keyword now a posts = ([], Inl (KeyError ''likes''))"
  by (simp add: save_results_def Let_def sort_by_likes_raises)

lemma process_keyword_no_pages:
  "map_of config ''default_pages'' = None \<Longrightarrow>
   process_keyword_body w keyword config now k2t = ([], Inl (KeyError ''default_pages''))"
  by (simp add: process_keyword_body_def dict_item_def Let_def)

lemma process_keyword_no_start:
  "map_of config ''default_pages'' = Some p \<Longrightarrow> map_of config ''start_page'' = None \<Longrightarrow>
   process_keyword_body w keyword config now k2t = ([], Inl (KeyError ''start_page''))"
  by (simp add: process_keyword_body_def dict_item_def Let_def)

section \<open>The start page\<close>

text \<open>
  C10. \<open>start_page\<close> is no key of the defaults, and \<open>load_config\<close> does not add it to a
  file that lacks it. For every configuration without \<open>start_page\<close> the body of
  \<open>process_keyword\<close> raises \<open>KeyError\<close> while it evaluates the arguments of the fetch (for
  \<open>default_pages\<close> when that key is missing as well, else for \<open>start_page\<close>), before any
  event: the fetcher is not called. \<open>process_keyword\<close> logs the error and returns \<open>None\<close>.
\<close>

theorem start_page_never_defaulted:
  "map_of default_config ''start_page'' = None \<and>
   (map_of config ''start_page'' = None \<longrightarrow>
      map_of (fst (load_config writable (Object config))) ''start_page'' = None \<and>
      process_keyword_body w keyword config now k2t =
        ([], Inl (KeyError (if dict_has config ''default_pages'' then ''start_page''
                            else ''default_pages''))) \<and>
      process_keyword w keyword config now k2t =
        ([LogError (KeyError (if dict_has config ''default_pages'' then ''start_page''
                              else ''default_pages''))], Inr None))"
proof -
  have d: "map_of default_config ''start_page'' = None" by (simp add: default_config_def)
  {
    assume c: "map_of config ''start_page'' = None"
    have "map_of (fst (load_config writable (Object config))) =
            map_of default_config ++ map_of config"
      by (simp add: load_config_def fill_defaults_map_add)
    with c d have l: "map_of (fst (load_config writable (Object config))) ''start_page'' = None"
      by (simp add: map_add_def)
    have b: "process_keyword_body w keyword config now k2t =
        ([], Inl (KeyError (if dict_has config ''default_pages'' then ''start_page''
                            else ''default_pages'')))"
      using c process_keyword_no_pages[of config] process_keyword_no_start[of config]
      by (cases "map_of config ''default_pages''") (auto simp: dict_has_def)
    note l b catch_raised[OF b, of None]
  }
  with d show ?thesis by (simp add: process_keyword_def)
qed

text \<open>An instance: the defaults themselves, which have \<open>default_pages\<close> but no \<open>start_page\<close>.\<close>

theorem start_page_never_defaulted_witness:
  "map_of default_config ''start_page'' = None \<and>
   process_keyword_body example_world (ascii ''k'') default_config (ascii ''t'') [] =
     ([], Inl (KeyError ''start_page'')) \<and>
   process_keyword example_world (ascii ''k'') default_config (ascii ''t'') [] =
     ([LogError (KeyError ''start_page'')], Inr None)"
proof -
  have d: "map_of default_config ''start_page'' = None" by (simp add: default_config_def)
  have h: "dict_has default_config ''default_pages''" by (simp add: default_config_def dict_has_def)
  from start_page_never_defaulted[of default_config True example_world "ascii ''k''" "ascii ''t''" "[]"]
    d h show ?thesis by simp
qed

section \<open>Events of a keyword run and the loops of \<open>main\<close>\<close>


lemma call_scorer_events:
  assumes "Score ps a b c d \<in> set (fst (call_scorer w config posts))"
  shows "map_of config ''min_score'' = Some a \<and> map_of config ''min_likes'' = Some b \<and>
         c = dict_get config ''min_comments'' (PInt 0) \<and>
         d = dict_get config ''min_forwards'' (PInt 0)"
proof (cases "map_of config ''min_score''")
  case None
  with assms show ?thesis by (simp add: call_scorer_def dict_item_def)
next
  case a: (Some a')
  show ?thesis
  proof (cases "map_of config ''min_likes''")
    case None
    with assms a show ?thesis by (simp add: call_scorer_def dict_item_def)
  next
    case b: (Some b')
    from assms a b show ?thesis
      by (cases "map_of config ''min_comments''"; cases "map_of config ''min_forwards''")
         (simp_all add: call_scorer_def dict_item_def threshold_or_zero_def dict_has_def dict_get_def)
  qed
qed

lemma download_urls_events:
  "ev \<in> set (fst (download_urls w keyword weibo urls paths)) \<Longrightarrow> \<exists>u k i. ev = Download u k i"
proof (induction urls arbitrary: paths)
  case Nil
  then show ?case by simp
next
  case (Cons url urls)
  show ?case
  proof (cases "url = []")
    case True
    with Cons show ?thesis by simp
  next
    case False
    show ?thesis
    proof (cases "dict_item weibo ''weibo_id''")
      case (Inl e)
      with Cons.prems False show ?thesis by simp
    next
      case wid: (Inr wid)
      show ?thesis
      proof (cases "download_media w url keyword wid")
        case (Inl e)
        with Cons.prems False wid show ?thesis by simp
      next
        case (Inr p)
        with Cons.prems False wid Cons.IH show ?thesis by auto
      qed
    qed
  qed
qed

lemma download_post_events:
  assumes "ev \<in> set (fst (download_post w keyword weibo))"
  shows "\<exists>u k i. ev = Download u k i"
proof (cases "truthy (dict_get weibo ''has_images'' (PBool False))")
  case False
  with assms show ?thesis by (simp add: download_post_def)
next
  case True
  show ?thesis
  proof (cases "split_bar (dict_get weibo ''image_urls'' (PStr []))")
    case (Inl e)
    with assms True show ?thesis by (simp add: download_post_def)
  next
    case (Inr urls)
    with assms True have "ev \<in> set (fst (download_urls w keyword weibo urls []))"
      by (simp add: download_post_def fst_and_then split: sum.splits)
    then show ?thesis by (rule download_urls_events)
  qed
qed

lemma download_filtered_media_events:
  "ev \<in> set (fst (download_filtered_media w weibos keyword)) \<Longrightarrow> \<exists>u k i. ev = Download u k i"
proof (induction weibos)
  case Nil
  then show ?case by simp
next
  case (Cons weibo weibos)
  from Cons.prems have "ev \<in> set (fst (download_post w keyword weibo)) \<or>
      ev \<in> set (fst (download_filtered_media w weibos keyword))"
    by (auto simp: fst_and_then split: sum.splits)
  with Cons.IH download_post_events show ?case by blast
qed

lemma materialize_media_events:
  assumes "ev \<in> set (fst (materialize_media w config keyword posts))"
  shows "\<exists>u k i. ev = Download u k i"
proof -
  from assms have "ev \<in> set (fst (download_filtered_media w posts keyword))"
    by (auto simp: materialize_media_def fst_and_then split: sum.splits if_splits)
  then show ?thesis by (rule download_filtered_media_events)
qed

lemma score_and_save_events:
  assumes "Score ps a b c d \<in> set (fst (score_and_save w keyword config now kt posts))"
  shows "Score ps a b c d \<in> set (fst (call_scorer w config posts))"
proof (rule ccontr)
  assume n: "Score ps a b c d \<notin> set (fst (call_scorer w config posts))"
  have m: "Score ps a b c d \<notin> set (fst (materialize_media w config keyword posts'))" for posts'
    using materialize_media_events[of "Score ps a b c d"] by auto
  from assms n m show False
    by (auto simp: score_and_save_def fst_and_then save_results_raises
             split: sum.splits option.splits)
qed

lemma process_keyword_body_events:
  assumes "Score ps a b c d \<in> set (fst (process_keyword_body w keyword config now k2t))"
  shows "\<exists>posts. Score ps a b c d \<in> set (fst (call_scorer w config posts))"
proof -
  from assms have "\<exists>posts. Score ps a b c d \<in> set (fst (score_and_save w keyword config now
      (classify k2t keyword) posts))"
    by (auto simp: process_keyword_body_def Let_def fst_and_then split: sum.splits if_splits)
  with score_and_save_events show ?thesis by blast
qed

lemma process_keyword_events:
  assumes "Score ps a b c d \<in> set (fst (process_keyword w keyword config now k2t))"
  shows "\<exists>posts. Score ps a b c d \<in> set (fst (call_scorer w config posts))"
proof -
  from assms have "Score ps a b c d \<in> set (fst (process_keyword_body w keyword config now k2t))"
    by (cases "process_keyword_body w keyword config now k2t";
        cases "snd (process_keyword_body w keyword config now k2t)")
       (auto simp: process_keyword_def catch_def)
  then show ?thesis by (rule process_keyword_body_events)
qed






section \<open>Runs in the example world\<close>

lemma example_config_value:
  "example_config =
     [(''start_page'', PInt 1), (''cookie'', PStr []), (''default_pages'', PInt 5),
      (''min_score'', PInt 80), (''min_likes'', PInt 500), (''download_media'', PBool False),
      (''max_retries'', PInt 3), (''retry_delay'', PInt 5), (''thread_pool_size'', PInt 4),
      (''proxy'', PNone)]"
  by (simp add: example_config_def load_config_def default_config_def dict_has_def dict_set_def)

lemma example_filter:
  "filter_by_time_and_media 63852062400000000 [example_post] = Inr [example_post]"
proof -
  have r: "2 * us_per_day \<le> 63852062400000000" "63852062400000000 \<le> datetime_max"
    by (simp_all add: datetime_max_def max_ordinal_def us_per_day_def)
  have "(0::int) \<le> 63852062400000000" by simp
  from relative_minutes[OF py_int_digit_5 this r(2), simplified]
  have p: "parse_weibo_time (PStr (53 # minutes_ago)) 63852062400000000 =
             Inr (Some 63852062100000000)"
    by (simp add: datetime_max_def max_ordinal_def us_per_day_def)
  from filter_by_time_and_media_eq[OF r] show ?thesis
    by (simp add: recent_with_media_def dict_get_def p example_post_def)
qed

lemma example_post_not_nil: "example_post \<noteq> []"
  by (simp add: example_post_def)

lemma example_run:
  "process_keyword example_world (ascii ''k'') example_config (ascii ''t'') [] =
     ([Fetch (ascii ''k'') (PInt 5) (PInt 1),
       Score [example_post] (PInt 80) (PInt 500) (PInt 0) (PInt 0),
       LogError (KeyError ''likes'')], Inr None)"
proof -
  have s: "call_scorer example_world example_config [example_post] =
      ([Score [example_post] (PInt 80) (PInt 500) (PInt 0) (PInt 0)],
       Inr (Some \<lparr>filtered_weibos = Some [example_post], trending_topics = None\<rparr>))"
    by (simp add: call_scorer_def example_config_value dict_item_def threshold_or_zero_def
        dict_has_def example_world_def)
  have m: "materialize_media example_world example_config (ascii ''k'') posts = ([], Inr posts)"
    for posts
    by (simp add: materialize_media_def example_config_value dict_item_def)
       (simp add: ret_def)
  have "score_and_save example_world (ascii ''k'') example_config (ascii ''t'') kt [example_post] =
      ([Score [example_post] (PInt 80) (PInt 500) (PInt 0) (PInt 0)], Inl (KeyError ''likes''))"
    for kt
    by (simp add: score_and_save_def s m and_then_def save_results_raises)
  then have "process_keyword_body example_world (ascii ''k'') example_config (ascii ''t'') [] =
      ([Fetch (ascii ''k'') (PInt 5) (PInt 1),
        Score [example_post] (PInt 80) (PInt 500) (PInt 0) (PInt 0)], Inl (KeyError ''likes''))"
    by (simp add: process_keyword_body_def Let_def example_config_value dict_item_def
        example_world_def example_filter[simplified] example_post_not_nil)
  then show ?thesis by (simp add: process_keyword_def catch_def)
qed

lemma example_run_no_min_score:
  "process_keyword example_world (ascii ''k'') [(''default_pages'', PInt 5), (''start_page'', PInt 1)]
     (ascii ''t'') [] =
     ([Fetch (ascii ''k'') (PInt 5) (PInt 1), LogError (KeyError ''min_score'')], Inr None)"
proof -
  have "score_and_save example_world (ascii ''k'') [(''default_pages'', PInt 5), (''start_page'', PInt 1)]
      (ascii ''t'') kt [example_post] = ([], Inl (KeyError ''min_score''))" for kt
    by (simp add: score_and_save_def call_scorer_def dict_item_def) (simp add: and_then_def)
  then have "process_keyword_body example_world (ascii ''k'')
      [(''default_pages'', PInt 5), (''start_page'', PInt 1)] (ascii ''t'') [] =
      ([Fetch (ascii ''k'') (PInt 5) (PInt 1)], Inl (KeyError ''min_score''))"
    by (simp add: process_keyword_body_def Let_def dict_item_def
        example_world_def example_filter[simplified] example_post_not_nil)
  then show ?thesis by (simp add: process_keyword_def catch_def)
qed




section \<open>The thresholds passed to the scorer\<close>

lemma scorer_arguments:
  assumes "Score ps a b c d \<in> set (fst (process_keyword w keyword config now k2t))"
  shows "map_of config ''min_score'' = Some a \<and> map_of config ''min_likes'' = Some b \<and>
      c = dict_get config ''min_comments'' (PInt 0) \<and>
      d = dict_get config ''min_forwards'' (PInt 0) \<and>
      (\<not> dict_has config ''min_comments'' \<longrightarrow> c = PInt 0) \<and>
      (\<not> dict_has config ''min_forwards'' \<longrightarrow> d = PInt 0)"
proof -
  from process_keyword_events[OF assms] obtain posts
    where "Score ps a b c d \<in> set (fst (call_scorer w config posts))" ..
  from call_scorer_events[OF this] show ?thesis
    by (simp add: dict_get_def dict_has_def)
qed

lemma load_config_min_score:
  assumes "\<not> dict_has config ''min_score''"
  shows "map_of (fst (load_config writable (Object config))) ''min_score'' = Some (PInt 80)"
proof -
  have "map_of (fst (load_config writable (Object config))) =
          map_of default_config ++ map_of config"
    by (simp add: load_config_def fill_defaults_map_add)
  with assms show ?thesis
    by (simp add: map_add_def dict_has_def default_config_def)
qed

lemma load_config_min_likes:
  assumes "\<not> dict_has config ''min_likes''"
  shows "map_of (fst (load_config writable (Object config))) ''min_likes'' = Some (PInt 500)"
proof -
  have "map_of (fst (load_config writable (Object config))) =
          map_of default_config ++ map_of config"
    by (simp add: load_config_def fill_defaults_map_add)
  with assms show ?thesis
    by (simp add: map_add_def dict_has_def default_config_def)
qed

text \<open>
  C6, as the code has it. Whenever \<open>process_keyword\<close> calls the scorer, the minimum
  score and the minimum likes are the values the configuration holds (they are read with
  \<open>config[...]\<close>: a configuration without them raises \<open>KeyError\<close> and the scorer is not
  called), and the minimum comments and minimum forwards are the values the configuration
  holds or, when the key is absent, zero. The values \<open>load_config\<close> fills in for a file
  without \<open>min_score\<close> and \<open>min_likes\<close> are 80 and 500, not zero.
\<close>

theorem scorer_thresholds:
  "(Score ps a b c d \<in> set (fst (process_keyword w keyword config now k2t)) \<longrightarrow>
      map_of config ''min_score'' = Some a \<and> map_of config ''min_likes'' = Some b \<and>
      c = dict_get config ''min_comments'' (PInt 0) \<and>
      d = dict_get config ''min_forwards'' (PInt 0) \<and>
      (\<not> dict_has config ''min_comments'' \<longrightarrow> c = PInt 0) \<and>
      (\<not> dict_has config ''min_forwards'' \<longrightarrow> d = PInt 0)) \<and>
   (\<not> dict_has config ''min_score'' \<longrightarrow>
      map_of (fst (load_config writable (Object config))) ''min_score'' = Some (PInt 80)) \<and>
   (\<not> dict_has config ''min_likes'' \<longrightarrow>
      map_of (fst (load_config writable (Object config))) ''min_likes'' = Some (PInt 500))"
proof (rule conjI)
  show "Score ps a b c d \<in> set (fst (process_keyword w keyword config now k2t)) \<longrightarrow>
      map_of config ''min_score'' = Some a \<and> map_of config ''min_likes'' = Some b \<and>
      c = dict_get config ''min_comments'' (PInt 0) \<and>
      d = dict_get config ''min_forwards'' (PInt 0) \<and>
      (\<not> dict_has config ''min_comments'' \<longrightarrow> c = PInt 0) \<and>
      (\<not> dict_has config ''min_forwards'' \<longrightarrow> d = PInt 0)"
    by (rule impI) (rule scorer_arguments)
  show "(\<not> dict_has config ''min_score'' \<longrightarrow>
      map_of (fst (load_config writable (Object config))) ''min_score'' = Some (PInt 80)) \<and>
   (\<not> dict_has config ''min_likes'' \<longrightarrow>
      map_of (fst (load_config writable (Object config))) ''min_likes'' = Some (PInt 500))"
    using load_config_min_score load_config_min_likes by (intro conjI impI)
qed

text \<open>
  An instance: the run of the example world under the configuration loaded from a file with
  only a start page calls the scorer with 80, 500, 0 and 0.
\<close>

theorem scorer_thresholds_witness:
  "Score [example_post] (PInt 80) (PInt 500) (PInt 0) (PInt 0)
     \<in> set (fst (process_keyword example_world (ascii ''k'') example_config (ascii ''t'') [])) \<and>
   \<not> dict_has example_config ''min_comments'' \<and> \<not> dict_has example_config ''min_forwards'' \<and>
   map_of example_config ''min_score'' = Some (PInt 80) \<and>
   map_of example_config ''min_likes'' = Some (PInt 500) \<and>
   \<not> dict_has [(''start_page'', PInt 1)] ''min_score'' \<and>
   map_of (fst (load_config True (Object [(''start_page'', PInt 1)]))) ''min_score'' = Some (PInt 80)"
proof -
  have m: "Score [example_post] (PInt 80) (PInt 500) (PInt 0) (PInt 0)
     \<in> set (fst (process_keyword example_world (ascii ''k'') example_config (ascii ''t'') []))"
    by (simp add: example_run)
  have n: "\<not> dict_has [(''start_page'', PInt 1)] ''min_score''" by (simp add: dict_has_def)
  from scorer_thresholds[of "[example_post]" "PInt 80" "PInt 500" "PInt 0" "PInt 0" example_world
      "ascii ''k''" example_config "ascii ''t''" "[]" True]
    scorer_thresholds[of "[]" PNone PNone PNone PNone example_world "[]" "[(''start_page'', PInt 1)]"
      "[]" "[]" True] m n
  show ?thesis by (simp add: example_config_value dict_has_def)
qed

text \<open>
  The claim as the specification states it fails for the minimum score and the minimum
  likes. A configuration file without them gives a call of the scorer with 80 and 500, and
  a configuration passed without \<open>min_score\<close> gives no call of the scorer at all.
\<close>

theorem scorer_zero_default_counterexample:
  "\<not> dict_has [(''start_page'', PInt 1)] ''min_score'' \<and>
   \<not> dict_has [(''start_page'', PInt 1)] ''min_likes'' \<and>
   fst (process_keyword example_world (ascii ''k'')
          (fst (load_config True (Object [(''start_page'', PInt 1)]))) (ascii ''t'') []) =
     [Fetch (ascii ''k'') (PInt 5) (PInt 1),
      Score [example_post] (PInt 80) (PInt 500) (PInt 0) (PInt 0),
      LogError (KeyError ''likes'')] \<and>
   \<not> dict_has [(''default_pages'', PInt 5), (''start_page'', PInt 1)] ''min_score'' \<and>
   fst (process_keyword example_world (ascii ''k'')
          [(''default_pages'', PInt 5), (''start_page'', PInt 1)] (ascii ''t'') []) =
     [Fetch (ascii ''k'') (PInt 5) (PInt 1), LogError (KeyError ''min_score'')]"
  using example_run example_run_no_min_score
  by (simp add: dict_has_def example_config_def)

section \<open>The sort of the assembled rows\<close>

text \<open>
  The aggregated run of \<open>main\<close> sorts by \<open>attitudes_count\<close>, a column the cleaning step
  keeps: when a collected post has that entry and the sort of pandas returns an order, the
  file of all results is written.
\<close>

lemma df_drop_columns:
  "df_drop names df = Inr df' \<Longrightarrow> set (df_columns df') = set (df_columns df) - set names"
  by (auto simp: df_drop_def df_columns_def split: option.splits)

lemma df_set_column_columns:
  "set (df_columns (df_set_column df name vs)) = insert name (set (df_columns df))"
  by (simp add: df_set_column_def df_columns_def dom_update)

lemma add_post_link_columns:
  "add_post_link df = Inr df' \<Longrightarrow> set (df_columns df) \<subseteq> set (df_columns df')"
  by (auto simp: add_post_link_def bind_def df_set_column_columns split: if_splits sum.splits)

lemma clean_content_column_columns:
  "clean_content_column df = Inr df' \<Longrightarrow> set (df_columns df) \<subseteq> set (df_columns df')"
  by (auto simp: clean_content_column_def bind_def df_set_column_columns split: if_splits sum.splits)

lemma cleaned_keeps_desired:
  assumes "c \<in> set desired_columns" and "c \<in> set (df_columns df)"
  shows "c \<in> set (df_columns (clean_and_reorder_dataframe df))"
proof -
  obtain df1 where d1: "df_drop (filter (\<lambda>c. c \<in> set (df_columns df)) columns_to_drop) df = Inr df1"
    using df_drop_present by blast
  obtain df2 where d2: "add_post_link df1 = Inr df2" using add_post_link_ok by blast
  obtain df3 where d3: "clean_content_column df2 = Inr df3" using clean_content_column_ok by blast
  obtain df4 where d4: "reorder_columns df3 = Inr df4"
    "df_columns df4 = filter (\<lambda>c. c \<in> set (df_columns df3)) desired_columns"
    using reorder_columns_ok by blast
  have e: "clean_and_reorder_dataframe df = df4"
    by (simp add: clean_and_reorder_dataframe_def d1 d2 d3 d4(1))
  from assms(1) have "c \<notin> set columns_to_drop"
    by (auto simp: desired_columns_def columns_to_drop_def)
  with assms(2) df_drop_columns[OF d1] have "c \<in> set (df_columns df1)" by simp
  with add_post_link_columns[OF d2] clean_content_column_columns[OF d3]
  have "c \<in> set (df_columns df3)" by blast
  with assms(1) d4(2) e show ?thesis by simp
qed

lemma DataFrame_columns: "set (df_columns (DataFrame posts)) = (\<Union>p \<in> set posts. fst ` set p)"
  by (auto simp: DataFrame_def df_columns_def first_seen_def comp_def)

lemma aggregated_sort_key_present:
  assumes "p \<in> set posts" and "dict_has p ''attitudes_count''"
  shows "\<exists>ks. df_column (clean_and_reorder_dataframe (DataFrame posts)) ''attitudes_count'' = Inr ks"
proof -
  from assms(2) have "''attitudes_count'' \<in> fst ` set p"
    by (simp add: dict_has_def map_of_eq_None_iff)
  with assms(1) have "''attitudes_count'' \<in> set (df_columns (DataFrame posts))"
    by (auto simp: DataFrame_columns)
  moreover have "''attitudes_count'' \<in> set desired_columns" by (simp add: desired_columns_def)
  ultimately have "''attitudes_count'' \<in> set (df_columns (clean_and_reorder_dataframe (DataFrame posts)))"
    by (rule cleaned_keeps_desired[rotated])
  then show ?thesis by (rule df_column_present)
qed

lemma aggregated_run_writes:
  assumes "p \<in> set posts" and "dict_has p ''attitudes_count''"
    and "\<And>ks. \<exists>order. argsort w ks = Inr order"
  shows "\<exists>df. save_all w now posts =
           ([WriteCsv (ascii ''results/all_results_'' @ now @ ascii ''.csv'') df], Inr ()) \<and>
         df_columns df = df_columns (clean_and_reorder_dataframe (DataFrame posts))"
proof -
  from aggregated_sort_key_present[OF assms(1,2)] obtain ks
    where k: "df_column (clean_and_reorder_dataframe (DataFrame posts)) ''attitudes_count'' = Inr ks" ..
  from assms(3) obtain order where o: "argsort w ks = Inr order" by blast
  from assms(1) have n: "posts \<noteq> []" by auto
  show ?thesis
    by (simp add: save_all_def n save_all_body_def Let_def sort_values_def k o bind_def catch_def
        emit_def df_columns_def comp_def case_prod_unfold)
qed

text \<open>
  C4. In a single-keyword run the sort never happens: \<open>clean_and_reorder_dataframe\<close> keeps
  the desired columns only, \<open>likes\<close> is not one of them, and \<open>sort_values(by='likes')\<close>
  raises \<open>KeyError\<close> (lemma \<open>sort_by_likes_raises\<close>, for every frame), whereas the
  aggregated run finds its sort column (lemma \<open>aggregated_run_writes\<close>). In the example world
  the post has seven likes and passes the filter and the scorer; the run ends with the
  logged \<open>KeyError\<close>, writes no file and returns \<open>None\<close>.
\<close>

theorem likes_sort_raises_in_example:
  "map_of example_post ''likes'' = Some (PInt 7) \<and>
   sort_values (argsort example_world) ''likes''
     (clean_and_reorder_dataframe (DataFrame [dict_set example_post ''type'' (PStr (ascii ''unknown''))])) =
     Inl (KeyError ''likes'') \<and>
   process_keyword example_world (ascii ''k'') example_config (ascii ''t'') [] =
     ([Fetch (ascii ''k'') (PInt 5) (PInt 1),
       Score [example_post] (PInt 80) (PInt 500) (PInt 0) (PInt 0),
       LogError (KeyError ''likes'')], Inr None)"
  using example_run sort_by_likes_raises by (simp add: example_post_def)

section \<open>Errors of one unit\<close>



end
